theory Spec2Isabelle
  imports Complex_Main "HOL-Library.Sublist" "HOL-Library.Log_Nat"
begin

section \<open>Python values and library functions used by lib/common/agents.py\<close>

text \<open>
  A Python \<open>bytes\<close> value is a list of 8-bit characters.  A Python \<open>str\<close> is represented by
  its UTF-8 encoding, so \<open>b.decode('UTF-8')\<close> is a validity check that returns the same
  list, and \<open>s.encode('UTF-8')\<close> is the identity.  Lengths and slices of a \<open>str\<close> therefore
  count bytes, which is what Python counts for ASCII text.
\<close>

type_synonym bytes = string

datatype exn =
    KeyError | ValueError | TypeError | AttributeError | IndexError
  | UnicodeDecodeError | ZeroDivisionError | IntegrityError | OSError | CryptoError
  | LibraryError

datatype 'a outcome = Returns 'a | Raises exn

definition bs :: char where
  "bs = CHR 0x5C"

definition slash :: char where
  "slash = CHR ''/''"

fun py_split :: "char \<Rightarrow> string \<Rightarrow> string list" where
  "py_split sep [] = [[]]"
| "py_split sep (c # cs) =
     (if c = sep then [] # py_split sep cs
      else (case py_split sep cs of [] \<Rightarrow> [[c]] | f # fs \<Rightarrow> (c # f) # fs))"

fun py_join :: "string \<Rightarrow> string list \<Rightarrow> string" where
  "py_join sep [] = []"
| "py_join sep [x] = x"
| "py_join sep (x # y # ys) = x @ sep @ py_join sep (y # ys)"

definition is_space :: "char \<Rightarrow> bool" where
  "is_space c = (c \<in> set [CHR '' '', CHR 0x09, CHR 0x0A, CHR 0x0B, CHR 0x0C, CHR 0x0D])"

definition strip :: "string \<Rightarrow> string" where
  "strip s = rev (dropWhile is_space (rev (dropWhile is_space s)))"

definition is_digit :: "char \<Rightarrow> bool" where
  "is_digit c = (48 \<le> (of_char c :: nat) \<and> (of_char c :: nat) \<le> 57)"

definition digit_val :: "char \<Rightarrow> int" where
  "digit_val c = int (of_char c) - 48"

text \<open>
  The digits of a base-10 literal as \<open>int()\<close> reads them: single underscores are allowed
  between digits.  The flag says whether the previous character was a digit.
\<close>

fun digits :: "int \<Rightarrow> bool \<Rightarrow> string \<Rightarrow> int option" where
  "digits acc prev [] = (if prev then Some acc else None)"
| "digits acc prev (c # cs) =
     (if is_digit c then digits (10 * acc + digit_val c) True cs
      else if c = CHR ''_'' \<and> prev then digits acc False cs
      else None)"

text \<open>
  \<open>int(x)\<close> on ASCII text: surrounding whitespace is dropped, one sign is allowed; \<open>None\<close>
  stands for \<open>ValueError\<close>.
\<close>

definition py_int :: "string \<Rightarrow> int option" where
  "py_int s =
     (case strip s of
        [] \<Rightarrow> None
      | c # cs \<Rightarrow>
          if c = CHR ''-'' then map_option uminus (digits 0 False cs)
          else if c = CHR ''+'' then digits 0 False cs
          else digits 0 False (c # cs))"

text \<open>\<open>str.lower()\<close> on ASCII letters, as a table.\<close>

definition lower_char :: "char \<Rightarrow> char" where
  "lower_char c =
     (case map_of (zip ''ABCDEFGHIJKLMNOPQRSTUVWXYZ'' ''abcdefghijklmnopqrstuvwxyz'') c of
        Some d \<Rightarrow> d
      | None \<Rightarrow> c)"

definition lower :: "string \<Rightarrow> string" where
  "lower s = map lower_char s"

definition is_cont :: "char \<Rightarrow> bool" where
  "is_cont c = (128 \<le> (of_char c :: nat) \<and> (of_char c :: nat) \<le> 191)"

text \<open>Well-formed UTF-8, byte by byte (the table of the Unicode standard).\<close>

fun utf8_valid :: "bytes \<Rightarrow> bool" where
  "utf8_valid [] = True"
| "utf8_valid (a # rest) =
     (let n = (of_char a :: nat) in
      if n < 128 then utf8_valid rest
      else if 194 \<le> n \<and> n \<le> 223 then
        (case rest of b # r \<Rightarrow> is_cont b \<and> utf8_valid r | _ \<Rightarrow> False)
      else if 224 \<le> n \<and> n \<le> 239 then
        (case rest of
           b # c # r \<Rightarrow>
             is_cont b \<and> is_cont c
             \<and> (n = 224 \<longrightarrow> 160 \<le> (of_char b :: nat))
             \<and> (n = 237 \<longrightarrow> (of_char b :: nat) \<le> 159)
             \<and> utf8_valid r
         | _ \<Rightarrow> False)
      else if 240 \<le> n \<and> n \<le> 244 then
        (case rest of
           b # c # d # r \<Rightarrow>
             is_cont b \<and> is_cont c \<and> is_cont d
             \<and> (n = 240 \<longrightarrow> 144 \<le> (of_char b :: nat))
             \<and> (n = 244 \<longrightarrow> (of_char b :: nat) \<le> 143)
             \<and> utf8_valid r
         | _ \<Rightarrow> False)
      else False)"

definition decode_utf8 :: "bytes \<Rightarrow> string outcome" where
  "decode_utf8 b = (if utf8_valid b then Returns b else Raises UnicodeDecodeError)"

subsection \<open>os.path (POSIX)\<close>

text \<open>
  \<open>normpath\<close> works on the text of a path only: empty and \<open>.\<close> components are dropped and a
  \<open>..\<close> component removes the component before it.  Symbolic links are not looked at.
\<close>

definition dotdot :: string where
  "dotdot = ''..''"

fun norm_comps :: "bool \<Rightarrow> string list \<Rightarrow> string list \<Rightarrow> string list" where
  "norm_comps rooted new_comps [] = rev new_comps"
| "norm_comps rooted new_comps (seg # comps) =
     (if seg = [] \<or> seg = ''.'' then norm_comps rooted new_comps comps
      else if seg \<noteq> dotdot \<or> (\<not> rooted \<and> new_comps = [])
              \<or> (new_comps \<noteq> [] \<and> hd new_comps = dotdot)
           then norm_comps rooted (seg # new_comps) comps
      else if new_comps \<noteq> [] then norm_comps rooted (tl new_comps) comps
      else norm_comps rooted new_comps comps)"

definition normpath :: "string \<Rightarrow> string" where
  "normpath path =
     (if path = [] then ''.''
      else
        let initial_slashes =
              (if prefix ''/'' path then
                 (if prefix ''//'' path \<and> \<not> prefix ''///'' path then 2 else 1)
               else (0::nat));
            p = py_join ''/'' (norm_comps (0 < initial_slashes) [] (py_split slash path));
            q = replicate initial_slashes slash @ p
        in if q = [] then ''.'' else q)"

definition path_join :: "string \<Rightarrow> string \<Rightarrow> string" where
  "path_join a b =
     (if prefix ''/'' b then b
      else if a = [] \<or> last a = slash then a @ b
      else a @ ''/'' @ b)"

definition abspath :: "string \<Rightarrow> string \<Rightarrow> string" where
  "abspath cwd path = normpath (if prefix ''/'' path then path else path_join cwd path)"

definition basename :: "string \<Rightarrow> string" where
  "basename p = last (py_split slash p)"

subsection \<open>The SQL LIKE operator\<close>

text \<open>
  Pattern first: \<open>%\<close> matches any run of characters, \<open>_\<close> any one character, and letters
  match without regard to case.
\<close>

fun sql_like :: "string \<Rightarrow> string \<Rightarrow> bool" where
  "sql_like [] [] = True"
| "sql_like [] (c # cs) = False"
| "sql_like (p # ps) [] = (p = CHR ''%'' \<and> sql_like ps [])"
| "sql_like (p # ps) (c # cs) =
     (if p = CHR ''%'' then sql_like ps (c # cs) \<or> sql_like (p # ps) cs
      else (p = CHR ''_'' \<or> lower_char p = lower_char c) \<and> sql_like ps cs)"

subsection \<open>Python floats\<close>

text \<open>
  A Python \<open>float\<close> is an IEEE 754 binary64 number.  The finite ones are rationals, and the
  model represents a float by the rational it denotes; every operation of the source on
  floats is the exact operation followed by rounding to the nearest float, ties to the even
  significand.  Two things of the format are not represented: the sign of zero, and
  overflow (\<open>to_double\<close> has no largest exponent), which needs a quotient of \<open>2 ^ 1024\<close> or
  more and so a file of that many bytes.

  \<open>round_half_even a b\<close> is the integer nearest to \<open>a / b\<close> for \<open>0 < b\<close>, ties to even.
\<close>

definition round_half_even :: "int \<Rightarrow> int \<Rightarrow> int" where
  "round_half_even a b =
     (let q = a div b; r = a mod b in
      if 2 * r < b then q
      else if b < 2 * r then q + 1
      else if even q then q else q + 1)"

text \<open>The integer nearest to a rational, ties to even.\<close>

definition round_rat :: "rat \<Rightarrow> int" where
  "round_rat y = (case quotient_of y of (a, b) \<Rightarrow> round_half_even a b)"

text \<open>\<open>flog2 x\<close> is \<open>\<lfloor>log\<^sub>2 x\<rfloor>\<close> for \<open>0 < x\<close>: the exponent of the binade of \<open>x\<close>.\<close>

definition flog2 :: "rat \<Rightarrow> int" where
  "flog2 x =
     (case quotient_of x of (a, b) \<Rightarrow>
        let k = bitlen a - bitlen b in if 2 powi k \<le> x then k else k - 1)"

text \<open>
  The float nearest to \<open>0 < x\<close>.  Floats of the binade \<open>2 ^ k \<le> x < 2 ^ (k + 1)\<close> are the
  multiples of \<open>2 ^ (k - 52)\<close> (53 significant bits); below \<open>2 ^ (- 1022)\<close> they are the
  multiples of \<open>2 ^ (- 1074)\<close> (subnormal numbers).
\<close>

definition double_of_pos :: "rat \<Rightarrow> rat" where
  "double_of_pos x =
     (let e = max (flog2 x - 52) (- 1074) in of_int (round_rat (x / 2 powi e)) * 2 powi e)"

definition to_double :: "rat \<Rightarrow> rat" where
  "to_double x = (if x = 0 then 0 else if x < 0 then - double_of_pos (- x) else double_of_pos x)"

text \<open>
  \<open>round(x, 2)\<close> of a float \<open>x\<close>: CPython rounds the exact value of \<open>x\<close> to two decimals, ties
  to even, and returns the float nearest to that decimal.
\<close>

definition py_round2 :: "rat \<Rightarrow> rat" where
  "py_round2 x = to_double (of_int (round_rat (x * 100)) / 100)"

section \<open>The state of the Agents object and of its stores\<close>

type_synonym task = "string \<times> string \<times> int"

type_synonym result_packet = "string \<times> int \<times> int \<times> int \<times> int \<times> bytes"

record listener_options =
  Name :: string
  DefaultDelay :: string
  DefaultJitter :: string
  DefaultProfile :: string
  KillDate :: string
  WorkingHours :: string
  DefaultLostLimit :: string
  SlackURL :: string

record cache_entry =
  sessionKey :: bytes
  cached_functions :: "string list"

text \<open>
  One row of the \<open>agents\<close> table.  A column that is NULL holds the empty text (or the empty
  list); the \<open>taskings\<close> column, a JSON list in the store, is the list it encodes.
\<close>

record agent_row =
  session_id :: string
  name :: string
  delay :: string
  jitter :: string
  external_ip :: string
  internal_ip :: string
  session_key :: bytes
  nonce :: string
  checkin_time :: nat
  lastseen_time :: nat
  profile :: string
  kill_date :: string
  working_hours :: string
  lost_limit :: string
  listener :: string
  language :: string
  language_version :: string
  username :: string
  hostname :: string
  os_details :: string
  high_integrity :: int
  process_name :: string
  process_id :: string
  taskings :: "task list"
  results :: string
  agent_functions :: "string list"

record tasking_row =
  t_id :: int
  t_agent :: string
  t_data :: string
  t_user_id :: "nat option"
  t_timestamp :: nat
  t_module_name :: "string option"

record result_row =
  r_id :: int
  r_agent :: string
  r_user_id :: "nat option"
  r_data :: "bytes option"

datatype msg =
    NewAgentCheckedIn string
  | AgentDeleted string
  | SkywalkerWarning string string bytes
  | Crc32Failed string
  | FilePartSaved string string rat
  | TaskedToRun string string
  | TaskedWithId string int
  | PostedPublicKey string string
  | HmacFailed string
  | InvalidPowerShellKeyFormat string
  | ValidPowerShellKey string string
  | InvalidPowerShellKey string
  | InvalidPythonKeyFormat string
  | ValidPythonKey string string
  | InvalidLanguage string string string
  | InvalidSysinfoCheckin string bytes
  | InvalidNonce string
  | NonceVerified string bytes
  | StagingException string exn
  | NowActive string string
  | InvalidStagingRequest string string string
  | WrongLength nat
  | IssuedRequest string string
  | SessionNotPresent string
  | UnhandledMeta string string
  | RequestNotPresent string
  | ResponseNotInCache string
  | ReturnedResults string
  | ErrorProcessingResult string exn
  | GotResults string string int
  | ReceivedError string
  | AgentExiting string
  | InvalidDownload string
  | InvalidSysinfoResponse string
  | UpdatedComms string string
  | ListenerUpdated string bytes
  | NonExistentAgentResults

datatype event = Event (sender: string) (printed: bool) (message: msg)

datatype notice = Slack string string | SocketIO string string

text \<open>
  \<open>agents\<close> is the dictionary \<open>self.agents\<close>.  The tables are the persistent store.
  \<open>session_objs\<close> holds the objects of the ORM session whose attributes were assigned and
  not yet committed: a query through the session sees them, the table does not until
  \<open>commit()\<close> is called.  An SQL statement that the source executes changes its table at
  once.  \<open>files\<close> maps the normalised absolute path of a file to its content; directories
  and symbolic links are not part of the state.
\<close>

record state =
  agents :: "string \<rightharpoonup> cache_entry"
  tbl_agents :: "agent_row list"
  session_objs :: "string \<rightharpoonup> agent_row"
  tbl_taskings :: "tasking_row list"
  tbl_results :: "result_row list"
  tbl_users :: "nat \<rightharpoonup> nat"
  tbl_config :: "(string \<times> string) option"
  files :: "string \<rightharpoonup> bytes"
  events :: "event list"
  sent :: "notice list"
  resourceQueue :: "string list"

text \<open>
  The functions and values below belong to modules that are not part of lib/common/agents.py
  (encryption, packets, helpers, zlib_wrapper, the main menu).  They are parameters of the model:
  one value of \<open>env\<close> fixes what those collaborators return during the call under study.
  So are \<open>json.dumps\<close> and the texts that Python prints for \<open>bytes\<close> and for exceptions.
  \<open>collaborator_response\<close> stands for the branches of \<open>process_agent_packet\<close> whose work is
  done by the credential store, the module-file sink and the directory mirror.
\<close>

record env =
  installPath :: string
  cwd :: string
  debug :: bool
  now :: nat
  generate_aes_key :: bytes
  random_string :: string
  aes_decrypt_and_verify :: "bytes \<Rightarrow> bytes \<Rightarrow> bytes outcome"
  aes_encrypt_then_hmac :: "bytes \<Rightarrow> bytes \<Rightarrow> bytes"
  rsa_xml_to_key :: "string \<Rightarrow> string option"
  rsa_encrypt :: "string \<Rightarrow> bytes \<Rightarrow> bytes"
  dh_genKey :: "int \<Rightarrow> (bytes \<times> int) outcome"
  parse_routing_packet :: "bytes \<Rightarrow> bytes \<Rightarrow> (string \<times> string \<times> string \<times> string \<times> bytes) list"
  parse_result_packets :: "bytes \<Rightarrow> result_packet list outcome"
  build_task_packet :: "string \<Rightarrow> string \<Rightarrow> int \<Rightarrow> bytes"
  build_routing_packet :: "bytes \<Rightarrow> string \<Rightarrow> string \<Rightarrow> bytes \<Rightarrow> bytes"
  decode_base64 :: "bytes \<Rightarrow> bytes"
  dec_data :: "bytes \<Rightarrow> bytes \<times> bool"
  repr_bytes :: "bytes \<Rightarrow> string"
  str_of_exn :: "exn \<Rightarrow> string"
  display_agent :: "agent_row \<Rightarrow> string"
  json_dumps :: "string \<Rightarrow> string"
  get_datetime :: string
  collaborator_response :: "string \<Rightarrow> string \<Rightarrow> int \<Rightarrow> bytes \<Rightarrow> state \<Rightarrow> unit outcome \<times> state"
  autoRuns :: "string \<Rightarrow> string list"
  socketio :: bool

definition emit :: "event \<Rightarrow> state \<Rightarrow> state" where
  "emit e st = st\<lparr>events := events st @ [e]\<rparr>"

definition agent_sender :: "string \<Rightarrow> string" where
  "agent_sender sid = ''agents/'' @ sid"

definition session_view :: "state \<Rightarrow> agent_row \<Rightarrow> agent_row" where
  "session_view st r = (case session_objs st (session_id r) of Some r' \<Rightarrow> r' | None \<Rightarrow> r)"

definition orm_rows :: "state \<Rightarrow> agent_row list" where
  "orm_rows st = map (session_view st) (tbl_agents st)"

definition query_first :: "(agent_row \<Rightarrow> bool) \<Rightarrow> state \<Rightarrow> agent_row option" where
  "query_first P st = find P (orm_rows st)"

definition orm_assign :: "agent_row \<Rightarrow> state \<Rightarrow> state" where
  "orm_assign r st = st\<lparr>session_objs := (session_objs st)(session_id r \<mapsto> r)\<rparr>"

definition commit :: "state \<Rightarrow> state" where
  "commit st = st\<lparr>tbl_agents := orm_rows st, session_objs := Map.empty\<rparr>"

definition append_file :: "string \<Rightarrow> bytes \<Rightarrow> state \<Rightarrow> state" where
  "append_file p d st =
     st\<lparr>files := (files st)(p \<mapsto> (case files st p of None \<Rightarrow> d | Some old \<Rightarrow> old @ d))\<rparr>"

definition write_file :: "string \<Rightarrow> bytes \<Rightarrow> state \<Rightarrow> state" where
  "write_file p d st = st\<lparr>files := (files st)(p \<mapsto> d)\<rparr>"

section \<open>The agent store\<close>

definition get_agent_id_db :: "state \<Rightarrow> string \<Rightarrow> string option" where
  "get_agent_id_db st nm = map_option session_id (query_first (\<lambda>r. name r = nm) st)"

text \<open>
  The lines ``see if we were passed a name instead of an ID'' that open most methods:
  \<open>nameid = self.get_agent_id_db(sessionID); if nameid: sessionID = nameid\<close>.
\<close>

definition resolve_id :: "state \<Rightarrow> string \<Rightarrow> string" where
  "resolve_id st sessionID =
     (case get_agent_id_db st sessionID of
        Some nameid \<Rightarrow> if nameid \<noteq> [] then nameid else sessionID
      | None \<Rightarrow> sessionID)"

definition get_agent_name_db :: "state \<Rightarrow> string \<Rightarrow> string option" where
  "get_agent_name_db st sid =
     map_option name (query_first (\<lambda>r. session_id r = sid \<or> name r = sid) st)"

definition get_agent_nonce_db :: "state \<Rightarrow> string \<Rightarrow> string option" where
  "get_agent_nonce_db st sid = map_option nonce (query_first (\<lambda>r. session_id r = sid) st)"

definition get_language_db :: "state \<Rightarrow> string \<Rightarrow> string option" where
  "get_language_db st sessionID =
     map_option language (query_first (\<lambda>r. session_id r = resolve_id st sessionID) st)"

definition get_agent_session_key_db :: "state \<Rightarrow> string \<Rightarrow> bytes option" where
  "get_agent_session_key_db st sid =
     map_option session_key (query_first (\<lambda>r. session_id r = sid \<or> name r = sid) st)"

definition default_profile :: string where
  "default_profile =
     ''/admin/get.php,/news.php,/login/process.php|Mozilla/5.0 (Windows NT 6.1; WOW64; Trident/7.0; rv:11.0) like Gecko''"

text \<open>
  Modelled from the spec: the key constraints of the \<open>agents\<close> table (\<open>session_id\<close> is the
  primary key, \<open>name\<close> is unique); lib/database/models.py, which declares the table, is not
  among the sources.  An insert that breaks them raises \<open>IntegrityError\<close> at the commit.
\<close>

definition add_agent ::
  "env \<Rightarrow> string \<Rightarrow> string \<Rightarrow> string \<Rightarrow> string \<Rightarrow> string \<Rightarrow> string \<Rightarrow> string \<Rightarrow> string
     \<Rightarrow> bytes \<Rightarrow> string \<Rightarrow> string \<Rightarrow> string \<Rightarrow> state \<Rightarrow> unit outcome \<times> state" where
  "add_agent E sessionID externalIP dly jit prof killDate workingHours lostLimit skey nonc lstnr lang st =
     (let key = (if skey = [] then generate_aes_key E else skey);
          prof' = (if prof = [] then default_profile else prof);
          row = \<lparr>session_id = sessionID, name = sessionID, delay = dly, jitter = jit,
                 external_ip = externalIP, internal_ip = [], session_key = key, nonce = nonc,
                 checkin_time = now E, lastseen_time = now E, profile = prof',
                 kill_date = killDate, working_hours = workingHours, lost_limit = lostLimit,
                 listener = lstnr, language = lang, language_version = [], username = [],
                 hostname = [], os_details = [], high_integrity = 0, process_name = [],
                 process_id = [], taskings = [], results = [], agent_functions = []\<rparr>
      in if sessionID \<in> set (map session_id (tbl_agents st))
            \<or> sessionID \<in> set (map name (orm_rows st))
         then (Raises IntegrityError, st)
         else
           let st1 = commit st;
               st2 = st1\<lparr>tbl_agents := tbl_agents st1 @ [row]\<rparr>;
               st3 = emit (Event (agent_sender sessionID) True (NewAgentCheckedIn sessionID)) st2
           in (Returns (),
               st3\<lparr>agents := (agents st3)(sessionID \<mapsto> \<lparr>sessionKey = key, cached_functions = []\<rparr>)\<rparr>))"

text \<open>
  \<open>remove_agent_db\<close>: the cache entry is removed by key, the row by
  \<open>DELETE FROM agents WHERE session_id LIKE ?\<close>.
\<close>

definition remove_agent_db :: "string \<Rightarrow> state \<Rightarrow> state" where
  "remove_agent_db sessionID st =
     (let (sid, st1) =
            (if sessionID = ''%'' \<or> lower sessionID = ''all''
             then (''%'', st\<lparr>agents := Map.empty\<rparr>)
             else (let s = resolve_id st sessionID in (s, st\<lparr>agents := (agents st)(s := None)\<rparr>)));
          st2 = st1\<lparr>tbl_agents := filter (\<lambda>r. \<not> sql_like sid (session_id r)) (tbl_agents st1)\<rparr>
      in emit (Event (agent_sender sid) True (AgentDeleted sid)) st2)"

text \<open>The constructor \<open>__init__\<close>: the cache is rebuilt from the rows of the store.\<close>

definition init_agents :: "state \<Rightarrow> state" where
  "init_agents st =
     st\<lparr>agents :=
          fold (\<lambda>r m. m(session_id r \<mapsto> \<lparr>sessionKey = session_key r, cached_functions = agent_functions r\<rparr>))
               (tbl_agents st) Map.empty,
        session_objs := Map.empty\<rparr>"

definition update_agent_sysinfo_db ::
  "string \<Rightarrow> string \<Rightarrow> string \<Rightarrow> string \<Rightarrow> string \<Rightarrow> int \<Rightarrow> string \<Rightarrow> string \<Rightarrow> string \<Rightarrow> string
     \<Rightarrow> state \<Rightarrow> unit outcome \<times> state" where
  "update_agent_sysinfo_db sessionID internalIP usern hostn osd hi pname pid langv lang st =
     (case query_first (\<lambda>r. session_id r = resolve_id st sessionID) st of
        None \<Rightarrow> (Raises AttributeError, st)
      | Some r \<Rightarrow>
          (Returns (),
           commit (orm_assign (r\<lparr>internal_ip := internalIP, username := usern, hostname := hostn,
                                  os_details := osd, high_integrity := hi, process_name := pname,
                                  process_id := pid, language_version := langv, language := lang\<rparr>) st)))"

definition update_agent_lastseen_db :: "env \<Rightarrow> string \<Rightarrow> state \<Rightarrow> unit outcome \<times> state" where
  "update_agent_lastseen_db E sid st =
     (case query_first (\<lambda>r. session_id r = sid \<or> name r = sid) st of
        None \<Rightarrow> (Raises AttributeError, st)
      | Some r \<Rightarrow> (Returns (), commit (orm_assign (r\<lparr>lastseen_time := now E\<rparr>) st)))"

text \<open>
  \<open>update_agent_results_db\<close>.  The flag is \<open>isinstance(results, bytes)\<close>: only \<open>bytes\<close> are
  decoded.  The column receives the JSON text of the old content followed by the new lines.
\<close>

definition update_agent_results_db ::
  "env \<Rightarrow> string \<Rightarrow> bool \<Rightarrow> bytes \<Rightarrow> state \<Rightarrow> unit outcome \<times> state" where
  "update_agent_results_db E sessionID is_bytes res st =
     (if is_bytes \<and> \<not> utf8_valid res then (Raises UnicodeDecodeError, st)
      else
        let sid = resolve_id st sessionID in
        if sid \<in> dom (agents st) then
          (case query_first (\<lambda>r. session_id r = sid) st of
             None \<Rightarrow> (Raises AttributeError, st)
           | Some r \<Rightarrow>
               (Returns (),
                commit (orm_assign (r\<lparr>results := json_dumps E (results r @ [CHR 0x0A] @ res)\<rparr>) st)))
        else (Returns (), emit (Event (agent_sender sid) True NonExistentAgentResults) st))"

definition save_agent_log :: "env \<Rightarrow> string \<Rightarrow> bool \<Rightarrow> bytes \<Rightarrow> state \<Rightarrow> unit outcome \<times> state" where
  "save_agent_log E sessionID is_bytes dat st =
     (if is_bytes \<and> \<not> utf8_valid dat then (Raises UnicodeDecodeError, st)
      else
        let nm = (case get_agent_name_db st sessionID of None \<Rightarrow> ''None'' | Some n \<Rightarrow> n);
            save_path = installPath E @ ''/downloads/'' @ nm @ ''/''
        in (Returns (),
            append_file (abspath (cwd E) (save_path @ ''/agent.log''))
              ([CHR 0x0A] @ get_datetime E @ '' : '' @ [CHR 0x0A] @ dat @ [CHR 0x0A]) st))"

section \<open>The task queue\<close>

definition max_id :: "int list \<Rightarrow> int option" where
  "max_id ids = (case ids of [] \<Rightarrow> None | x # xs \<Rightarrow> Some (fold max xs x))"

definition agent_task_ids :: "state \<Rightarrow> string \<Rightarrow> int list" where
  "agent_task_ids st sid = map t_id (filter (\<lambda>t. t_agent t = sid) (tbl_taskings st))"

text \<open>
  \<open>add_agent_task_db\<close>.  Its statements go through the connection \<open>self.mainMenu.conn\<close> and
  read and write the tables.  The result is \<open>None\<close> when the agent is not in the cache or the
  session id is empty.  The \<open>taskings\<close> and \<open>results\<close> tables carry no key constraint here: an
  insert always adds a row.
\<close>

definition add_agent_task_db ::
  "env \<Rightarrow> string \<Rightarrow> string \<Rightarrow> string \<Rightarrow> string option \<Rightarrow> nat option \<Rightarrow> state \<Rightarrow> int option \<times> state" where
  "add_agent_task_db E sessionID taskName tsk moduleName uid st =
     (let sid = resolve_id st sessionID in
      if sid \<notin> dom (agents st) then (None, st)
      else if sid = [] then (None, st)
      else
        let st1 = emit (Event (agent_sender sid) True (TaskedToRun sid taskName)) st;
            agent_tasks = (case find (\<lambda>r. session_id r = sid) (tbl_agents st1) of
                             None \<Rightarrow> [] | Some r \<Rightarrow> taskings r);
            pk0 = (case max_id (agent_task_ids st1 sid) of None \<Rightarrow> 0 | Some m \<Rightarrow> m);
            pk = (pk0 + 1) mod 65536;
            st2 = st1\<lparr>tbl_taskings := tbl_taskings st1 @
                      [\<lparr>t_id = pk, t_agent = sid, t_data = take 100 tsk, t_user_id = uid,
                        t_timestamp = now E, t_module_name = moduleName\<rparr>]\<rparr>;
            st3 = st2\<lparr>tbl_results := tbl_results st2 @
                      [\<lparr>r_id = pk, r_agent = sid, r_user_id = uid, r_data = None\<rparr>]\<rparr>;
            st4 = st3\<lparr>tbl_agents :=
                      map (\<lambda>r. if session_id r = sid
                                then r\<lparr>taskings := agent_tasks @ [(taskName, tsk, pk)]\<rparr> else r)
                          (tbl_agents st3)\<rparr>;
            st5 = (case uid of None \<Rightarrow> st4
                   | Some u \<Rightarrow> if u \<in> dom (tbl_users st4)
                               then st4\<lparr>tbl_users := (tbl_users st4)(u \<mapsto> now E)\<rparr> else st4);
            st6 = emit (Event (agent_sender sid) True (TaskedWithId sid pk)) st5;
            st7 = (if debug E then write_file (abspath (cwd E) (installPath E @ ''/LastTask'')) tsk st6
                   else st6)
        in (Some pk, st7))"

text \<open>
  \<open>get_agent_tasks_db\<close>.  The source assigns \<open>agent.taskings = ''\<close> and then evaluates
  \<open>Session().commit\<close> without calling it, so the assignment stays in the session.
\<close>

definition get_agent_tasks_db :: "string \<Rightarrow> state \<Rightarrow> task list outcome \<times> state" where
  "get_agent_tasks_db sessionID st =
     (let sid = resolve_id st sessionID in
      if sid \<notin> dom (agents st) then (Returns [], st)
      else
        (case query_first (\<lambda>r. session_id r = sid) st of
           None \<Rightarrow> (Raises AttributeError, st)
         | Some r \<Rightarrow>
             if taskings r \<noteq> [] then (Returns (taskings r), orm_assign (r\<lparr>taskings := []\<rparr>) st)
             else (Returns [], st)))"

definition and_then ::
  "'a outcome \<times> state \<Rightarrow> ('a \<Rightarrow> state \<Rightarrow> 'b outcome \<times> state) \<Rightarrow> 'b outcome \<times> state" where
  "and_then r f = (case r of (Returns a, st) \<Rightarrow> f a st | (Raises e, st) \<Rightarrow> (Raises e, st))"

section \<open>The file sink\<close>

fun contains :: "string \<Rightarrow> string \<Rightarrow> bool" where
  "contains pat [] = (pat = [])"
| "contains pat (c # cs) = (prefix pat (c # cs) \<or> contains pat cs)"

text \<open>
  \<open>round(on_disk / int(filesize) * 100, 2)\<close>, for \<open>int(filesize)\<close> other than zero.  The
  division of two \<open>int\<close>s gives the float nearest to the exact quotient, the product with
  \<open>100\<close> is a float multiplication, and \<open>round\<close> gives a float again.
\<close>

definition percent_of :: "nat \<Rightarrow> int \<Rightarrow> rat" where
  "percent_of on_disk fs = py_round2 (to_double (to_double (of_nat on_disk / of_int fs) * 100))"

definition none_text :: "string option \<Rightarrow> string" where
  "none_text x = (case x of None \<Rightarrow> ''None'' | Some s \<Rightarrow> s)"

text \<open>
  The file that \<open>save_file\<close> opens, \<open>save_path + "/" + filename\<close> with
  \<open>save_path = "%sdownloads/%s/%s" % (installPath, sessionID, "/".join(parts[0:-1]))\<close>, as
  \<open>abspath\<close> normalises it; and \<open>safePath\<close>, the directory its check compares it with.
\<close>

definition save_target :: "env \<Rightarrow> state \<Rightarrow> string \<Rightarrow> string \<Rightarrow> string" where
  "save_target E st sessionID path =
     abspath (cwd E)
       ((installPath E @ ''downloads/'' @ resolve_id st sessionID @ ''/''
           @ py_join ''/'' (butlast (py_split bs path)))
        @ ''/'' @ basename (last (py_split bs path)))"

definition safe_path :: "env \<Rightarrow> string" where
  "safe_path E = abspath (cwd E) (installPath E @ ''downloads/'')"

text \<open>
  \<open>save_file\<close>.  \<open>target\<close> is the file that the source opens, \<open>save_path + "/" + filename\<close>,
  as the operating system resolves it when no component is a symbolic link.  Opening a name
  that is empty, \<open>.\<close> or \<open>..\<close> fails; other failures of the file system are not modelled.
\<close>

definition save_file ::
  "env \<Rightarrow> string \<Rightarrow> string \<Rightarrow> bytes \<Rightarrow> string \<Rightarrow> bool \<Rightarrow> state \<Rightarrow> unit outcome \<times> state" where
  "save_file E sessionID path dat filesize appending st =
     (let nameid = get_agent_id_db st sessionID;
          sid = resolve_id st sessionID;
          lang = get_language_db st sid;
          filename = basename (last (py_split bs path));
          safePath = safe_path E;
          target = save_target E st sessionID path
      in if \<not> prefix safePath target
         then (Returns (), emit (Event (agent_sender sid) True (SkywalkerWarning sid path dat)) st)
         else if filename = [] \<or> filename = ''.'' \<or> filename = dotdot then (Raises OSError, st)
         else
           let st1 = (if appending then append_file target [] st else write_file target [] st) in
           (case lang of
              None \<Rightarrow> (Raises TypeError, st1)
            | Some l \<Rightarrow>
                let (d, st2) =
                      (if contains ''python'' l
                       then (let (dd, ok) = dec_data E dat
                             in (dd, if ok then st1
                                     else emit (Event (agent_sender (none_text nameid)) True
                                                  (Crc32Failed (none_text nameid))) st1))
                       else (dat, st1));
                    st3 = append_file target d st2;
                    on_disk = (case files st3 target of None \<Rightarrow> 0 | Some c \<Rightarrow> length c)
                in (case py_int filesize of
                      None \<Rightarrow> (Raises ValueError, st3)
                    | Some fs \<Rightarrow>
                        if fs = 0 then (Raises ZeroDivisionError, st3)
                        else (Returns (),
                              emit (Event (agent_sender sid) True
                                      (FilePartSaved filename sid (percent_of on_disk fs))) st3))))"

section \<open>The staging state machine\<close>

definition is_printable :: "char \<Rightarrow> bool" where
  "is_printable c =
     (let n = (of_char c :: nat) in (32 \<le> n \<and> n \<le> 126) \<or> (9 \<le> n \<and> n \<le> 13))"

fun nat_digits :: "nat \<Rightarrow> string" where
  "nat_digits n =
     (if n < 10 then [''0123456789'' ! n]
      else nat_digits (n div 10) @ [''0123456789'' ! (n mod 10)])"

declare nat_digits.simps [simp del]

definition str_of_int :: "int \<Rightarrow> string" where
  "str_of_int i = (if i < 0 then ''-'' @ nat_digits (nat (- i)) else nat_digits (nat i))"

definition get_agent_db :: "state \<Rightarrow> string \<Rightarrow> agent_row outcome" where
  "get_agent_db st sid =
     (case filter (\<lambda>r. session_id r = sid \<or> name r = sid) (tbl_agents st) of
        [] \<Rightarrow> Raises IndexError
      | r # _ \<Rightarrow> Returns r)"

definition get_autoruns_db :: "state \<Rightarrow> string \<times> string" where
  "get_autoruns_db st = (case tbl_config st of None \<Rightarrow> ([], []) | Some c \<Rightarrow> c)"

definition socket_emit :: "env \<Rightarrow> string \<Rightarrow> string \<Rightarrow> state \<Rightarrow> state" where
  "socket_emit E topic sid st =
     (if socketio E then st\<lparr>sent := sent st @ [SocketIO topic sid]\<rparr> else st)"

text \<open>The branch \<open>meta == 'STAGE1'\<close> of \<open>handle_agent_staging\<close>.\<close>

definition stage1 ::
  "env \<Rightarrow> string \<Rightarrow> string \<Rightarrow> bytes \<Rightarrow> bytes \<Rightarrow> listener_options \<Rightarrow> string \<Rightarrow> state
     \<Rightarrow> string option outcome \<times> state" where
  "stage1 E sessionID lang encData stagingKey opts clientIP st =
     (let snd_r = agent_sender sessionID;
          st1 = emit (Event snd_r False (PostedPublicKey sessionID clientIP)) st
      in case aes_decrypt_and_verify E stagingKey encData of
           Raises e \<Rightarrow>
             (Returns (Some ''ERROR: HMAC verification failed''),
              emit (Event snd_r True (HmacFailed sessionID)) st1)
         | Returns m \<Rightarrow>
             if lower lang = ''powershell'' then
               (if \<not> utf8_valid m then (Raises UnicodeDecodeError, st1)
                else
                  let txt = filter is_printable m in
                  if length txt < 400 \<or> \<not> suffix ''</RSAKeyValue>'' txt
                  then (Returns (Some ''ERROR: Invalid PowerShell key post format''),
                        emit (Event snd_r True (InvalidPowerShellKeyFormat sessionID)) st1)
                  else
                    (case rsa_xml_to_key E txt of
                       None \<Rightarrow>
                         (Returns (Some ''ERROR: Invalid PowerShell public key''),
                          emit (Event snd_r True (InvalidPowerShellKey sessionID)) st1)
                     | Some rsaKey \<Rightarrow>
                         let st2 = emit (Event snd_r False (ValidPowerShellKey sessionID clientIP)) st1;
                             nonc = random_string E
                         in and_then
                              (add_agent E sessionID clientIP (DefaultDelay opts) (DefaultJitter opts)
                                 (DefaultProfile opts) (KillDate opts) (WorkingHours opts)
                                 (DefaultLostLimit opts) [] nonc (Name opts) [] st2)
                              (\<lambda>_ st3.
                                 let st4 = socket_emit E ''agents/new'' sessionID st3;
                                     clientSessionKey =
                                       none_text (get_agent_session_key_db st4 sessionID);
                                     plain = filter (\<lambda>c. (of_char c :: nat) < 128)
                                               (nonc @ clientSessionKey)
                                 in (Returns (Some (rsa_encrypt E rsaKey plain)), st4))))
             else if lower lang = ''python'' then
               (if length m < 1000 \<or> 2500 < length m
                then (Returns (Some (''Error: Invalid Python key post format from '' @ sessionID)),
                      emit (Event snd_r True (InvalidPythonKeyFormat sessionID)) st1)
                else
                  (case py_int m of
                     None \<Rightarrow>
                       (Returns (Some (''Error: Invalid Python key post format from '' @ sessionID)),
                        emit (Event snd_r True (InvalidPythonKeyFormat sessionID)) st1)
                   | Some clientPub \<Rightarrow>
                       (case dh_genKey E clientPub of
                          Raises e \<Rightarrow> (Raises e, st1)
                        | Returns (key, publicKey) \<Rightarrow>
                            let nonc = random_string E;
                                st2 = emit (Event snd_r True (ValidPythonKey sessionID clientIP)) st1
                            in and_then
                                 (add_agent E sessionID clientIP (DefaultDelay opts)
                                    (DefaultJitter opts) (DefaultProfile opts) (KillDate opts)
                                    (WorkingHours opts) (DefaultLostLimit opts) key nonc (Name opts)
                                    [] st2)
                                 (\<lambda>_ st3.
                                    (Returns (Some (aes_encrypt_then_hmac E stagingKey
                                                      (nonc @ str_of_int publicKey))),
                                     socket_emit E ''agents/new'' sessionID st3)))))
             else
               (Returns (Some (''ERROR: invalid language: '' @ lang)),
                emit (Event snd_r True (InvalidLanguage sessionID clientIP lang)) st1))"

text \<open>
  The body of the \<open>try\<close> block of the branch \<open>meta == 'STAGE2'\<close>: either the method returns
  there (\<open>Reject\<close>), or the eleven fields after the nonce go on (\<open>Accept\<close>).
\<close>

datatype checkin = Reject string | Accept "string list"

definition stage2_checkin ::
  "env \<Rightarrow> string \<Rightarrow> bytes \<Rightarrow> bytes \<Rightarrow> state \<Rightarrow> checkin outcome \<times> state" where
  "stage2_checkin E sessionID encData skey st =
     (case aes_decrypt_and_verify E skey encData of
        Raises e \<Rightarrow> (Raises e, st)
      | Returns m \<Rightarrow>
          let parts = py_split (CHR ''|'') m in
          if length parts < 12 then
            (Returns (Reject (''ERROR: Agent '' @ sessionID
                        @ '' posted invalid sysinfo checkin format: '' @ ''[!] Agent '' @ sessionID
                        @ '' posted invalid sysinfo checkin format: '' @ repr_bytes E m)),
             remove_agent_db sessionID
               (emit (Event (agent_sender sessionID) True (InvalidSysinfoCheckin sessionID m)) st))
          else
            (case py_int (hd parts) of
               None \<Rightarrow> (Raises ValueError, st)
             | Some k \<Rightarrow>
                 (case get_agent_nonce_db st sessionID of
                    None \<Rightarrow> (Raises TypeError, st)
                  | Some n \<Rightarrow>
                      (case py_int n of
                         None \<Rightarrow> (Raises ValueError, st)
                       | Some nv \<Rightarrow>
                           if k \<noteq> nv + 1 then
                             (Returns (Reject (''ERROR: Invalid nonce returned from '' @ sessionID)),
                              remove_agent_db sessionID
                                (emit (Event (agent_sender sessionID) True (InvalidNonce sessionID)) st))
                           else
                             let st1 = emit (Event (agent_sender sessionID) False
                                               (NonceVerified sessionID m)) st;
                                 flds = take 11 (tl parts)
                             in if list_all utf8_valid flds then (Returns (Accept flds), st1)
                                else (Raises UnicodeDecodeError, st1)))))"

text \<open>
  The two autorun blocks that end the branch: the global script autorun of the \<open>config\<close>
  table becomes the agent's first task, and the autorun commands of the agent's language are
  queued for the operator console.
\<close>

definition run_autoruns :: "env \<Rightarrow> string \<Rightarrow> string \<Rightarrow> state \<Rightarrow> state" where
  "run_autoruns E sessionID lang st =
     (let autorun = get_autoruns_db st;
          st6 = (if fst autorun \<noteq> [] \<and> snd autorun \<noteq> []
                 then snd (add_agent_task_db E sessionID (fst autorun) (snd autorun) None None st)
                 else st);
          runs = autoRuns E (lower lang)
      in if runs \<noteq> []
         then st6\<lparr>resourceQueue := resourceQueue st6 @ [''interact '' @ sessionID] @ runs
                                      @ [''lastautoruncmd'']\<rparr>
         else st6)"

text \<open>
  The rest of the branch, after the \<open>try\<close> block.  The fields are \<open>listener, domainname,
  username, hostname, internal_ip, os_details, high_integrity, process_name, process_id,
  language, language_version\<close>.  The operator console that \<open>do_agents("kickit")\<close> starts is not
  part of the model.
\<close>

definition stage2_activate ::
  "env \<Rightarrow> string \<Rightarrow> string list \<Rightarrow> listener_options \<Rightarrow> string \<Rightarrow> state
     \<Rightarrow> string option outcome \<times> state" where
  "stage2_activate E sessionID flds opts clientIP st =
     (let domainname = flds ! 1;
          usern = (if domainname \<noteq> [] \<and> strip domainname \<noteq> []
                   then domainname @ [bs] @ flds ! 2 else flds ! 2);
          hi = (if flds ! 6 = ''True'' then 1 else 0);
          lang = flds ! 9
      in and_then
           (update_agent_sysinfo_db sessionID (flds ! 4) usern (flds ! 3) (flds ! 5) hi
              (flds ! 7) (flds ! 8) (flds ! 10) lang st)
           (\<lambda>_ st1.
              let st2 = (if SlackURL opts \<noteq> []
                         then st1\<lparr>sent := sent st1 @ [Slack (SlackURL opts) sessionID]\<rparr> else st1);
                  st3 = emit (Event (agent_sender sessionID) True (NowActive sessionID clientIP)) st2
              in case get_agent_db st3 sessionID of
                   Raises e \<Rightarrow> (Raises e, st3)
                 | Returns agent \<Rightarrow>
                     and_then
                       (save_agent_log E sessionID False
                          (display_agent E agent @ [CHR 0x0A] @ ''[+] Agent '' @ sessionID
                             @ '' now active:'' @ [CHR 0x0A])
                          (socket_emit E ''agents/stage2'' sessionID st3))
                       (\<lambda>_ st5.
                          (Returns (Some (''STAGE2: '' @ sessionID)),
                           run_autoruns E sessionID lang st5))))"

definition stage2 ::
  "env \<Rightarrow> string \<Rightarrow> bytes \<Rightarrow> listener_options \<Rightarrow> string \<Rightarrow> state
     \<Rightarrow> string option outcome \<times> state" where
  "stage2 E sessionID encData opts clientIP st =
     (case agents st sessionID of
        None \<Rightarrow> (Raises KeyError, st)
      | Some entry \<Rightarrow>
          (case stage2_checkin E sessionID encData (sessionKey entry) st of
             (Raises e, st1) \<Rightarrow>
               (Returns (Some (''Error: Exception in agents.handle_agent_staging() for ''
                                 @ sessionID @ '' : '' @ str_of_exn E e)),
                remove_agent_db sessionID
                  (emit (Event (agent_sender sessionID) True (StagingException sessionID e)) st1))
           | (Returns (Reject s), st1) \<Rightarrow> (Returns (Some s), st1)
           | (Returns (Accept flds), st1) \<Rightarrow> stage2_activate E sessionID flds opts clientIP st1))"

definition handle_agent_staging ::
  "env \<Rightarrow> string \<Rightarrow> string \<Rightarrow> string \<Rightarrow> string \<Rightarrow> bytes \<Rightarrow> bytes \<Rightarrow> listener_options \<Rightarrow> string
     \<Rightarrow> state \<Rightarrow> string option outcome \<times> state" where
  "handle_agent_staging E sessionID lang meta additional encData stagingKey opts clientIP st =
     (if meta = ''STAGE0'' then (Returns (Some ''STAGE0''), st)
      else if meta = ''STAGE1'' then stage1 E sessionID lang encData stagingKey opts clientIP st
      else if meta = ''STAGE2'' then stage2 E sessionID encData opts clientIP st
      else (Returns None,
            emit (Event (agent_sender sessionID) True
                    (InvalidStagingRequest sessionID clientIP meta)) st))"

section \<open>Requests and responses\<close>

definition handle_agent_request ::
  "env \<Rightarrow> string \<Rightarrow> string \<Rightarrow> bytes \<Rightarrow> bool \<Rightarrow> state \<Rightarrow> string option outcome \<times> state" where
  "handle_agent_request E sessionID lang stagingKey update_lastseen st =
     (if sessionID \<notin> dom (agents st)
      then (Returns None, emit (Event (agent_sender sessionID) True (RequestNotPresent sessionID)) st)
      else
        and_then (if update_lastseen then update_agent_lastseen_db E sessionID st
                  else (Returns (), st))
          (\<lambda>_ st1.
             and_then (get_agent_tasks_db sessionID st1)
               (\<lambda>tasks st2.
                  if tasks \<noteq> [] then
                    (case agents st2 sessionID of
                       None \<Rightarrow> (Raises KeyError, st2)
                     | Some entry \<Rightarrow>
                         (Returns (Some (build_routing_packet E stagingKey sessionID lang
                                           (aes_encrypt_then_hmac E (sessionKey entry)
                                              (concat (map (\<lambda>(task_name, task_data, res_id).
                                                              build_task_packet E task_name task_data res_id)
                                                         tasks))))),
                          st2))
                  else (Returns None, st2))))"

definition update_agent_listener_db :: "string \<Rightarrow> string \<Rightarrow> state \<Rightarrow> unit outcome \<times> state" where
  "update_agent_listener_db sid listener_name st =
     (case query_first (\<lambda>r. session_id r = sid \<or> name r = sid) st of
        None \<Rightarrow> (Raises AttributeError, st)
      | Some r \<Rightarrow> (Returns (), commit (orm_assign (r\<lparr>listener := listener_name\<rparr>) st)))"

text \<open>
  The first block of \<open>process_agent_packet\<close>: the result row of the task receives the data,
  twice when the task is a keylogger task.
\<close>

definition record_result :: "string \<Rightarrow> string \<Rightarrow> int \<Rightarrow> bytes \<Rightarrow> state \<Rightarrow> state" where
  "record_result sid responseName taskID dat st =
     (let st1 = emit (Event (agent_sender sid) False (GotResults sid responseName taskID)) st in
      if taskID \<noteq> 0
         \<and> responseName \<notin> set [''TASK_DOWNLOAD'', ''TASK_CMD_JOB_SAVE'', ''TASK_CMD_WAIT_SAVE'']
      then
        let keylog = list_ex (\<lambda>t. t_agent t = sid \<and> t_id t = taskID
                                   \<and> sql_like ''function Get-Keystrokes%'' (t_data t))
                       (tbl_taskings st1);
            stored = (if keylog then dat @ dat else dat)
        in st1\<lparr>tbl_results :=
                 map (\<lambda>r. if r_id r = taskID \<and> r_agent r = sid then r\<lparr>r_data := Some stored\<rparr> else r)
                     (tbl_results st1)\<rparr>
      else st1)"

definition results_and_log ::
  "env \<Rightarrow> string \<Rightarrow> bool \<Rightarrow> bytes \<Rightarrow> state \<Rightarrow> unit outcome \<times> state" where
  "results_and_log E sid is_bytes dat st =
     and_then (update_agent_results_db E sid is_bytes dat st)
       (\<lambda>_ st1. save_agent_log E sid is_bytes dat st1)"

definition pad18 :: "string \<Rightarrow> string" where
  "pad18 s = s @ replicate (18 - length s) (CHR '' '')"

definition sysinfo_text :: "string list \<Rightarrow> string \<Rightarrow> int \<Rightarrow> string" where
  "sysinfo_text parts usern hi =
     pad18 ''Listener:'' @ parts ! 1 @ [CHR 0x0A]
     @ pad18 ''Internal IP:'' @ parts ! 5 @ [CHR 0x0A]
     @ pad18 ''Username:'' @ usern @ [CHR 0x0A]
     @ pad18 ''Hostname:'' @ parts ! 4 @ [CHR 0x0A]
     @ pad18 ''OS:'' @ parts ! 6 @ [CHR 0x0A]
     @ pad18 ''High Integrity:'' @ str_of_int hi @ [CHR 0x0A]
     @ pad18 ''Process Name:'' @ parts ! 8 @ [CHR 0x0A]
     @ pad18 ''Process ID:'' @ parts ! 9 @ [CHR 0x0A]
     @ pad18 ''Language:'' @ parts ! 10 @ [CHR 0x0A]
     @ pad18 ''Language Version:'' @ parts ! 11 @ [CHR 0x0A]"

text \<open>
  \<open>process_agent_packet\<close>.  The packet data is \<open>bytes\<close>.  The branches for TASK_DIR_LIST,
  TASK_CMD_WAIT, TASK_CMD_WAIT_SAVE, TASK_CMD_JOB and TASK_CMD_JOB_SAVE are the parameter
  \<open>collaborator_response\<close>; an unknown name is only printed.
\<close>

definition process_agent_packet ::
  "env \<Rightarrow> string \<Rightarrow> string \<Rightarrow> int \<Rightarrow> bytes \<Rightarrow> state \<Rightarrow> unit outcome \<times> state" where
  "process_agent_packet E sessionID responseName taskID dat st0 =
     (let sid = resolve_id st0 sessionID;
          st = record_result sid responseName taskID dat st0
      in
      if responseName = ''ERROR'' then
        and_then
          (update_agent_results_db E sid True dat
             (emit (Event (agent_sender sid) True (ReceivedError sid)) st))
          (\<lambda>_ st1. save_agent_log E sid False (''[!] Error response: '' @ dat) st1)
      else if responseName = ''TASK_SYSINFO'' then
        (if \<not> utf8_valid dat then (Raises UnicodeDecodeError, st)
         else
           let parts = py_split (CHR ''|'') dat in
           if length parts < 12
           then (Returns (), emit (Event (agent_sender sid) True (InvalidSysinfoResponse sid)) st)
           else
             let hi = (if parts ! 7 = ''True'' then 1 else 0);
                 usern = parts ! 2 @ [bs] @ parts ! 3
             in and_then
                  (update_agent_sysinfo_db sid (parts ! 5) usern (parts ! 4) (parts ! 6) hi
                     (parts ! 8) (parts ! 9) (parts ! 11) (parts ! 10) st)
                  (\<lambda>_ st1. results_and_log E sid False (sysinfo_text parts usern hi) st1))
      else if responseName = ''TASK_EXIT'' then
        and_then
          (save_agent_log E sid True dat (emit (Event (agent_sender sid) True (AgentExiting sid)) st))
          (\<lambda>_ st1. (Returns (), remove_agent_db sid st1))
      else if responseName \<in> set [''TASK_SHELL'', ''TASK_STOPDOWNLOAD'', ''TASK_STOPJOB'',
                ''TASK_SCRIPT_IMPORT'', ''TASK_IMPORT_MODULE'', ''TASK_VIEW_MODULE'',
                ''TASK_REMOVE_MODULE'', ''TASK_SCRIPT_COMMAND'']
      then results_and_log E sid True dat st
      else if responseName = ''TASK_DOWNLOAD'' then
        (if \<not> utf8_valid dat then (Raises UnicodeDecodeError, st)
         else
           let parts = py_split (CHR ''|'') dat in
           if length parts \<noteq> 4
           then (Returns (), emit (Event (agent_sender sid) True (InvalidDownload sid)) st)
           else
             and_then
               (save_file E (none_text (get_agent_name_db st sid)) (parts ! 1)
                  (decode_base64 E (parts ! 3)) (parts ! 2) (parts ! 0 \<noteq> ''0'') st)
               (\<lambda>_ st1.
                  save_agent_log E sid False
                    (''file download: '' @ parts ! 1 @ '', part: '' @ parts ! 0) st1))
      else if responseName = ''TASK_GETDOWNLOADS'' then
        (if dat = [] then results_and_log E sid False ''[*] No active downloads'' st
         else results_and_log E sid True dat st)
      else if responseName = ''TASK_UPLOAD'' then (Returns (), st)
      else if responseName = ''TASK_GETJOBS'' then
        (if dat = [] then results_and_log E sid False ''[*] No active jobs'' st
         else results_and_log E sid True dat st)
      else if responseName \<in> set [''TASK_DIR_LIST'', ''TASK_CMD_WAIT'', ''TASK_CMD_WAIT_SAVE'',
                ''TASK_CMD_JOB'', ''TASK_CMD_JOB_SAVE'']
      then collaborator_response E responseName sid taskID dat st
      else if responseName = ''TASK_SWITCH_LISTENER'' then
        (if \<not> utf8_valid dat then (Raises UnicodeDecodeError, st)
         else
           and_then (update_agent_listener_db sid (drop 38 dat) st)
             (\<lambda>_ st1.
                and_then (results_and_log E sid False dat st1)
                  (\<lambda>_ st2.
                     (Returns (),
                      emit (Event (agent_sender sid) False (UpdatedComms sid (drop 38 dat))) st2))))
      else if responseName = ''TASK_UPDATE_LISTENERNAME'' then
        and_then (results_and_log E sid True dat st)
          (\<lambda>_ st1. (Returns (), emit (Event (agent_sender sid) False (ListenerUpdated sid dat)) st1))
      else (Returns (), st))"

text \<open>The loop of \<open>handle_agent_response\<close> over the parsed result packets.\<close>

fun process_all :: "env \<Rightarrow> string \<Rightarrow> result_packet list \<Rightarrow> state \<Rightarrow> unit outcome \<times> state" where
  "process_all E sessionID [] st = (Returns (), st)"
| "process_all E sessionID ((responseName, totalPacket, packetNum, taskID, len, dat) # rest) st =
     (case process_agent_packet E sessionID responseName taskID dat st of
        (Raises e, st1) \<Rightarrow> (Raises e, st1)
      | (Returns _, st1) \<Rightarrow> process_all E sessionID rest st1)"

definition processing_failed :: "string \<Rightarrow> exn \<Rightarrow> state \<Rightarrow> string option outcome \<times> state" where
  "processing_failed sessionID e st =
     (Returns None, emit (Event (agent_sender sessionID) True (ErrorProcessingResult sessionID e)) st)"

definition handle_agent_response ::
  "env \<Rightarrow> string \<Rightarrow> bytes \<Rightarrow> bool \<Rightarrow> state \<Rightarrow> string option outcome \<times> state" where
  "handle_agent_response E sessionID encData update_lastseen st =
     (case agents st sessionID of
        None \<Rightarrow>
          (Returns None, emit (Event (agent_sender sessionID) True (ResponseNotInCache sessionID)) st)
      | Some entry \<Rightarrow>
          and_then (if update_lastseen then update_agent_lastseen_db E sessionID st
                    else (Returns (), st))
            (\<lambda>_ st1.
               case aes_decrypt_and_verify E (sessionKey entry) encData of
                 Raises e \<Rightarrow> processing_failed sessionID e st1
               | Returns packet \<Rightarrow>
                   (case parse_result_packets E packet of
                      Raises e \<Rightarrow> processing_failed sessionID e st1
                    | Returns responsePackets \<Rightarrow>
                        (case process_all E sessionID responsePackets st1 of
                           (Raises e, st2) \<Rightarrow> processing_failed sessionID e st2
                         | (Returns _, st2) \<Rightarrow>
                             (Returns (Some ''VALID''),
                              if responsePackets \<noteq> []
                              then emit (Event (agent_sender sessionID) False
                                           (ReturnedResults sessionID)) st2
                              else st2)))))"

section \<open>The entry point for listeners\<close>

text \<open>The loop of \<open>handle_agent_data\<close> over the items of the parsed routing packet.\<close>

fun route ::
  "env \<Rightarrow> bytes \<Rightarrow> listener_options \<Rightarrow> string \<Rightarrow> bool
     \<Rightarrow> (string \<times> string \<times> string \<times> string \<times> bytes) list \<Rightarrow> (string \<times> string option) list
     \<Rightarrow> state \<Rightarrow> (string \<times> string option) list outcome \<times> state" where
  "route E stagingKey opts clientIP update_lastseen [] dataToReturn st = (Returns dataToReturn, st)"
| "route E stagingKey opts clientIP update_lastseen
       ((sessionID, lang, meta, additional, encData) # rest) dataToReturn st =
     (if meta = ''STAGE0'' \<or> meta = ''STAGE1'' \<or> meta = ''STAGE2'' then
        (case handle_agent_staging E sessionID lang meta additional encData stagingKey opts clientIP
                (emit (Event (agent_sender sessionID) False (IssuedRequest sessionID meta)) st) of
           (Raises e, st1) \<Rightarrow> (Raises e, st1)
         | (Returns r, st1) \<Rightarrow>
             route E stagingKey opts clientIP update_lastseen rest (dataToReturn @ [(lang, r)]) st1)
      else if sessionID \<notin> dom (agents st) then
        route E stagingKey opts clientIP update_lastseen rest
          (dataToReturn @ [([], Some (''ERROR: sessionID '' @ sessionID @ '' not in cache!''))])
          (emit (Event (agent_sender sessionID) False (SessionNotPresent sessionID)) st)
      else if meta = ''TASKING_REQUEST'' then
        (case handle_agent_request E sessionID lang stagingKey True
                (emit (Event (agent_sender sessionID) False (IssuedRequest sessionID meta)) st) of
           (Raises e, st1) \<Rightarrow> (Raises e, st1)
         | (Returns r, st1) \<Rightarrow>
             route E stagingKey opts clientIP update_lastseen rest (dataToReturn @ [(lang, r)]) st1)
      else if meta = ''RESULT_POST'' then
        (case handle_agent_response E sessionID encData update_lastseen
                (emit (Event (agent_sender sessionID) False (IssuedRequest sessionID meta)) st) of
           (Raises e, st1) \<Rightarrow> (Raises e, st1)
         | (Returns r, st1) \<Rightarrow>
             route E stagingKey opts clientIP update_lastseen rest (dataToReturn @ [(lang, r)]) st1)
      else
        route E stagingKey opts clientIP update_lastseen rest dataToReturn
          (emit (Event (agent_sender sessionID) True (UnhandledMeta sessionID meta)) st))"

definition handle_agent_data ::
  "env \<Rightarrow> bytes \<Rightarrow> bytes \<Rightarrow> listener_options \<Rightarrow> string \<Rightarrow> bool \<Rightarrow> state
     \<Rightarrow> (string \<times> string option) list option outcome \<times> state" where
  "handle_agent_data E stagingKey routingPacket opts clientIP update_lastseen st =
     (if length routingPacket < 20
      then (Returns None, emit (Event ''empire'' False (WrongLength (length routingPacket))) st)
      else
        (case parse_routing_packet E stagingKey routingPacket of
           [] \<Rightarrow> (Returns (Some [([], Some ''ERROR: invalid routing packet'')]), st)
         | item # items \<Rightarrow>
             (case route E stagingKey opts clientIP update_lastseen (item # items) [] st of
                (Raises e, st1) \<Rightarrow> (Raises e, st1)
              | (Returns r, st1) \<Rightarrow> (Returns (Some r), st1))))"

section \<open>Notions used in the statements\<close>

text \<open>The id that \<open>add_agent_task_db\<close> computes from the ids of the agent's task rows.\<close>

definition next_id :: "int list \<Rightarrow> int" where
  "next_id ids = ((case max_id ids of None \<Rightarrow> 0 | Some m \<Rightarrow> m) + 1) mod 65536"

definition ids_upto :: "nat \<Rightarrow> int list" where
  "ids_upto k = map int [1..<Suc k]"

fun id_seq :: "nat \<Rightarrow> int list \<Rightarrow> int list" where
  "id_seq 0 ids = []"
| "id_seq (Suc n) ids = next_id ids # id_seq n (ids @ [next_id ids])"

text \<open>\<open>n\<close> times: enqueue one task, then drain the agent's tasks.  The ids returned.\<close>

fun enqueue_drain_ids :: "nat \<Rightarrow> env \<Rightarrow> string \<Rightarrow> string \<Rightarrow> string \<Rightarrow> state \<Rightarrow> int option list" where
  "enqueue_drain_ids 0 E sid taskName tsk st = []"
| "enqueue_drain_ids (Suc n) E sid taskName tsk st =
     (let r = add_agent_task_db E sid taskName tsk None None st
      in fst r # enqueue_drain_ids n E sid taskName tsk (snd (get_agent_tasks_db sid (snd r))))"

text \<open>
  The session ids of the table are distinct, and an object of the session stands for the
  row of the same session id.
\<close>

definition store_wf :: "state \<Rightarrow> bool" where
  "store_wf st =
     (distinct (map session_id (tbl_agents st))
      \<and> list_all (\<lambda>r. session_id (session_view st r) = session_id r) (tbl_agents st))"

definition row_keys :: "state \<Rightarrow> (string \<times> string) list" where
  "row_keys st = map (\<lambda>r. (name r, session_id r)) (orm_rows st)"

definition reported_percent :: "event \<Rightarrow> rat option" where
  "reported_percent e = (case message e of FilePartSaved f s p \<Rightarrow> Some p | _ \<Rightarrow> None)"




section \<open>Concrete values for evaluation\<close>

text \<open>
  An empty installation, and collaborators that do the least possible: the cipher is the
  identity, packets are not parsed, decompression returns its input.
\<close>

definition empty_state :: state where
  "empty_state =
     \<lparr>agents = Map.empty, tbl_agents = [], session_objs = Map.empty, tbl_taskings = [],
      tbl_results = [], tbl_users = Map.empty, tbl_config = None, files = Map.empty,
      events = [], sent = [], resourceQueue = []\<rparr>"

definition test_env :: env where
  "test_env =
     \<lparr>installPath = ''/opt/Empire/'', cwd = ''/opt/Empire'', debug = False, now = 0,
      generate_aes_key = ''0123456789abcdef0123456789abcdef'',
      random_string = ''1000000000000000'',
      aes_decrypt_and_verify = (\<lambda>k c. Returns c),
      aes_encrypt_then_hmac = (\<lambda>k m. m),
      rsa_xml_to_key = (\<lambda>x. None),
      rsa_encrypt = (\<lambda>k m. m),
      dh_genKey = (\<lambda>n. Returns (''shared-secret-key'', 7)),
      parse_routing_packet = (\<lambda>k p. []),
      parse_result_packets = (\<lambda>p. Returns []),
      build_task_packet = (\<lambda>n d i. d),
      build_routing_packet = (\<lambda>k s l d. d),
      decode_base64 = (\<lambda>d. d),
      dec_data = (\<lambda>d. (d, True)),
      repr_bytes = (\<lambda>b. b),
      str_of_exn = (\<lambda>e. ''exception''),
      display_agent = (\<lambda>r. session_id r),
      json_dumps = (\<lambda>s. s),
      get_datetime = ''2020-01-01 00:00:00'',
      collaborator_response = (\<lambda>n s t d st. (Returns (), st)),
      autoRuns = (\<lambda>l. []),
      socketio = False\<rparr>"

definition one_agent :: "string \<Rightarrow> state" where
  "one_agent sid =
     snd (add_agent test_env sid ''10.0.0.5'' ''5'' ''0.0'' [] [] [] ''60'' ''session-key''
            ''1000000000000000'' ''http'' [] empty_state)"

definition test_opts :: listener_options where
  "test_opts =
     \<lparr>Name = ''http'', DefaultDelay = ''5'', DefaultJitter = ''0.0'', DefaultProfile = [],
      KillDate = [], WorkingHours = [], DefaultLostLimit = ''60'', SlackURL = []\<rparr>"

definition escaping_path :: string where
  "escaping_path = ''..'' @ [bs] @ ''..'' @ [bs] @ ''downloads_evil'' @ [bs] @ ''x''"

definition tasked_agent :: state where
  "tasked_agent =
     snd (add_agent_task_db test_env ''K7X2'' ''TASK_SHELL'' ''whoami'' None None
            (one_agent ''K7X2''))"






definition shell_ok :: result_packet where
  "shell_ok = (''TASK_SHELL'', 1, 1, 0, 2, ''hi'')"

definition shell_bad :: result_packet where
  "shell_bad = (''TASK_SHELL'', 1, 1, 0, 1, [CHR 0xFF])"

definition env_bad_mac :: env where
  "env_bad_mac = test_env\<lparr>aes_decrypt_and_verify := (\<lambda>k c. Raises CryptoError)\<rparr>"

definition env_bad_parse :: env where
  "env_bad_parse = test_env\<lparr>parse_result_packets := (\<lambda>p. Raises ValueError)\<rparr>"

definition env_two_packets :: env where
  "env_two_packets = test_env\<lparr>parse_result_packets := (\<lambda>p. Returns [shell_ok, shell_bad])\<rparr>"

section \<open>Properties\<close>

lemmas eval_defs =
  resolve_id_def get_agent_id_db_def query_first_def orm_rows_def session_view_def get_language_db_def
  test_env_def abspath_def normpath_def path_join_def slash_def dotdot_def basename_def Let_def
  write_file_def append_file_def emit_def py_int_def strip_def is_space_def is_digit_def
  digit_val_def none_text_def agent_sender_def bs_def

lemma one_agent_eval:
  "one_agent sid =
     \<lparr>agents = [sid \<mapsto> \<lparr>sessionKey = ''session-key'', cached_functions = []\<rparr>],
      tbl_agents =
        [\<lparr>session_id = sid, name = sid, delay = ''5'', jitter = ''0.0'',
          external_ip = ''10.0.0.5'', internal_ip = [], session_key = ''session-key'',
          nonce = ''1000000000000000'', checkin_time = 0, lastseen_time = 0,
          profile = default_profile, kill_date = [], working_hours = [], lost_limit = ''60'',
          listener = ''http'', language = [], language_version = [], username = [],
          hostname = [], os_details = [], high_integrity = 0, process_name = [],
          process_id = [], taskings = [], results = [], agent_functions = []\<rparr>],
      session_objs = Map.empty, tbl_taskings = [], tbl_results = [], tbl_users = Map.empty,
      tbl_config = None, files = Map.empty,
      events = [Event (agent_sender sid) True (NewAgentCheckedIn sid)], sent = [],
      resourceQueue = []\<rparr>"
  by (simp add: one_agent_def add_agent_def empty_state_def test_env_def orm_rows_def session_view_def
        commit_def emit_def Let_def)

subsection \<open>remove_agent_db\<close>

text \<open>
  C10.  The claim: \<open>remove_agent_db\<close> removes the agent from the cache and from the table in
  one call, so the keys of the cache and the session ids of the table stay equal.  The cache
  entry is removed by exact key, the row by \<open>LIKE\<close>.  With one agent \<open>K7X2\<close> in both, the
  call \<open>remove_agent_db('K7X_')\<close> finds no agent of that name and no such key in the cache,
  and its DELETE matches the row of \<open>K7X2\<close>: the cache keeps an agent that the table has lost.
\<close>

theorem remove_agent_db_like_diverges:
  "dom (agents (one_agent ''K7X2'')) = set (map session_id (tbl_agents (one_agent ''K7X2'')))
   \<and> dom (agents (remove_agent_db ''K7X_'' (one_agent ''K7X2''))) = {''K7X2''}
   \<and> set (map session_id (tbl_agents (remove_agent_db ''K7X_'' (one_agent ''K7X2'')))) = {}"
  by (simp add: one_agent_eval remove_agent_db_def resolve_id_def get_agent_id_db_def
        query_first_def orm_rows_def session_view_def lower_def lower_char_def emit_def Let_def)

subsection \<open>handle_agent_data\<close>

text \<open>
  C8.  A transport body shorter than 20 bytes is rejected before anything is parsed:
  \<open>handle_agent_data\<close> returns \<open>None\<close> without raising, and the only change of the state is
  one event of the sender \<open>empire\<close> that is not printed.  The cache, the tables and the
  files stay as they were.
\<close>

theorem handle_agent_data_short:
  "length routingPacket < 20 \<Longrightarrow>
   handle_agent_data E stagingKey routingPacket opts clientIP update_lastseen st
     = (Returns None,
        st\<lparr>events := events st @ [Event ''empire'' False (WrongLength (length routingPacket))]\<rparr>)"
  by (simp add: handle_agent_data_def emit_def)

theorem handle_agent_data_short_witness:
  "length ''GET /index.html'' < 20 \<and>
   handle_agent_data test_env ''key'' ''GET /index.html'' test_opts ''10.0.0.5'' True empty_state
     = (Returns None,
        empty_state\<lparr>events := events empty_state
                       @ [Event ''empire'' False (WrongLength (length ''GET /index.html''))]\<rparr>)"
  using handle_agent_data_short
          [of "''GET /index.html''" test_env "''key''" test_opts "''10.0.0.5''" True empty_state]
  by simp

subsection \<open>save_file: the percentage on concrete inputs\<close>

text \<open>
  The percentage on the concrete inputs used below, and on two inputs where the float
  computation and the exact one disagree: 23 bytes of 160 give 14.37 (14.375 exactly, and
  the float product is below it), 10 bytes of 200000 give 0.01 (0.005 exactly, and the float
  product is above it).
\<close>

lemma percent_of_7_7: "percent_of (Suc (Suc (Suc (Suc (Suc (Suc (Suc 0))))))) 7 = 100"
  by code_simp

lemma percent_of_2_4: "percent_of (Suc (Suc 0)) 4 = 50"
  by code_simp

lemma percent_of_2_1: "percent_of (Suc (Suc 0)) 1 = 200"
  by code_simp

lemma percent_of_23_160:
  "percent_of 23 160 = to_double (1437 / 100) \<and> round_half_even (10000 * 23) 160 = 1438"
  by code_simp

lemma percent_of_10_200000:
  "percent_of 10 200000 = to_double (1 / 100) \<and> round_half_even (10000 * 10) 200000 = 0"
  by code_simp

subsection \<open>save_file: where the file is written\<close>

text \<open>
  C1.  The claim: every write of \<open>save_file\<close> lands under the \<open>downloads/\<close> directory of the
  install path, and a path that escapes it is refused with a warning.  The check of the
  source is \<open>abspath(target).startswith(abspath(installPath + "downloads/"))\<close>, and \<open>abspath\<close>
  drops the final separator, so the check compares with the text \<open>/opt/Empire/downloads\<close>.
  For the agent \<open>K7X2\<close> and the remote path \<open>..\..\downloads_evil\x\<close> the target
  \<open>/opt/Empire/downloads_evil/x\<close> passes it: the file is written outside
  \<open>/opt/Empire/downloads/\<close>, no warning is emitted, and the progress event reports success.
\<close>

theorem save_file_escapes_downloads:
  "fst (save_file test_env ''K7X2'' escaping_path ''payload'' ''7'' False (one_agent ''K7X2''))
     = Returns ()
   \<and> files (snd (save_file test_env ''K7X2'' escaping_path ''payload'' ''7'' False
                  (one_agent ''K7X2'')))
         ''/opt/Empire/downloads_evil/x'' = Some ''payload''
   \<and> \<not> prefix ''/opt/Empire/downloads/'' ''/opt/Empire/downloads_evil/x''
   \<and> events (snd (save_file test_env ''K7X2'' escaping_path ''payload'' ''7'' False
                   (one_agent ''K7X2'')))
       = [Event ''agents/K7X2'' True (NewAgentCheckedIn ''K7X2''),
          Event ''agents/K7X2'' True (FilePartSaved ''x'' ''K7X2'' 100)]"
  by (simp add: save_file_def save_target_def safe_path_def one_agent_eval escaping_path_def
        eval_defs percent_of_7_7)

subsection \<open>get_agent_tasks_db\<close>

lemma tasked_agent_eval:
  "tasked_agent = (one_agent ''K7X2'')
     \<lparr>tbl_agents := map (\<lambda>r. r\<lparr>taskings := [(''TASK_SHELL'', ''whoami'', 1)]\<rparr>)
                        (tbl_agents (one_agent ''K7X2'')),
      tbl_taskings := [\<lparr>t_id = 1, t_agent = ''K7X2'', t_data = ''whoami'', t_user_id = None,
                        t_timestamp = 0, t_module_name = None\<rparr>],
      tbl_results := [\<lparr>r_id = 1, r_agent = ''K7X2'', r_user_id = None, r_data = None\<rparr>],
      events := [Event ''agents/K7X2'' True (NewAgentCheckedIn ''K7X2''),
                 Event ''agents/K7X2'' True (TaskedToRun ''K7X2'' ''TASK_SHELL''),
                 Event ''agents/K7X2'' True (TaskedWithId ''K7X2'' 1)]\<rparr>"
  by (simp add: tasked_agent_def add_agent_task_db_def one_agent_eval eval_defs max_id_def
        agent_task_ids_def)

text \<open>
  C5.  The claim: draining returns the pending tasks and leaves them cleared in the
  persistent store, so that the tasks that survive a restart are those not yet drained.
  \<open>get_agent_tasks_db\<close> assigns \<open>agent.taskings = ''\<close> and then names \<open>Session().commit\<close>
  without calling it.  For the agent \<open>K7X2\<close> with one pending task the drain returns the
  task, the row of the table still holds it, and after a restart (\<open>init_agents\<close>) the next
  drain returns the same task again.
\<close>

theorem drain_not_persisted:
  "fst (get_agent_tasks_db ''K7X2'' tasked_agent) = Returns [(''TASK_SHELL'', ''whoami'', 1)]
   \<and> map taskings (tbl_agents (snd (get_agent_tasks_db ''K7X2'' tasked_agent)))
       = [[(''TASK_SHELL'', ''whoami'', 1)]]
   \<and> fst (get_agent_tasks_db ''K7X2''
             (init_agents (snd (get_agent_tasks_db ''K7X2'' tasked_agent))))
       = Returns [(''TASK_SHELL'', ''whoami'', 1)]"
  by (simp add: tasked_agent_eval one_agent_eval get_agent_tasks_db_def init_agents_def
        orm_assign_def eval_defs)

subsection \<open>save_file: the reported percentage\<close>

lemma rhe_le: "0 < b \<Longrightarrow> a \<le> c * b \<Longrightarrow> round_half_even a b \<le> c"
proof -
  assume b: "0 < b" and le: "a \<le> c * b"
  have "a div b \<le> (c * b) div b" using b le by (rule_tac zdiv_mono1)
  then have q: "a div b \<le> c" using b by simp
  show ?thesis
  proof (cases "a div b = c")
    case True
    have "a mod b = a - b * (a div b)"
      by (simp add: minus_div_mult_eq_mod [symmetric] algebra_simps)
    then have "a mod b \<le> 0" using True le by (simp add: algebra_simps)
    moreover have "0 \<le> a mod b" using b by simp
    ultimately have "a mod b = 0" by simp
    then show ?thesis using b True by (simp add: round_half_even_def Let_def)
  next
    case False
    then have "a div b + 1 \<le> c" using q by simp
    then show ?thesis using q by (simp add: round_half_even_def Let_def)
  qed
qed

lemma rhe_ge: "a div b \<le> round_half_even a b"
  by (simp add: round_half_even_def Let_def)

lemma round_rat_le: "y \<le> of_int c \<Longrightarrow> round_rat y \<le> c"
proof -
  assume le: "y \<le> of_int c"
  obtain a b where q: "quotient_of y = (a, b)" by (cases "quotient_of y")
  have b: "0 < b" using q by (rule quotient_of_denom_pos)
  have y: "y = of_int a / of_int b" using q by (rule quotient_of_div)
  have "(of_int a :: rat) \<le> of_int c * of_int b" using le b by (simp add: y pos_divide_le_eq)
  then have "(of_int a :: rat) \<le> of_int (c * b)" by simp
  then have "a \<le> c * b" by (simp only: of_int_le_iff)
  then show ?thesis using rhe_le [OF b] by (simp add: round_rat_def q)
qed

lemma round_rat_ge: "of_int c \<le> y \<Longrightarrow> c \<le> round_rat y"
proof -
  assume le: "of_int c \<le> y"
  obtain a b where q: "quotient_of y = (a, b)" by (cases "quotient_of y")
  have b: "0 < b" using q by (rule quotient_of_denom_pos)
  have y: "y = of_int a / of_int b" using q by (rule quotient_of_div)
  have "(of_int c :: rat) * of_int b \<le> of_int a" using le b by (simp add: y pos_le_divide_eq)
  then have "(of_int (c * b) :: rat) \<le> of_int a" by simp
  then have "c * b \<le> a" by (simp only: of_int_le_iff)
  then have "(c * b) div b \<le> a div b" using b by (rule_tac zdiv_mono1)
  then have "c \<le> a div b" using b by simp
  then show ?thesis using rhe_ge [of a b] by (simp add: round_rat_def q)
qed

lemma flog2_le: "0 < x \<Longrightarrow> 2 powi (flog2 x) \<le> x"
proof -
  assume x: "0 < x"
  obtain a b where q: "quotient_of x = (a, b)" by (cases "quotient_of x")
  have b: "0 < b" using q by (rule quotient_of_denom_pos)
  have xd: "x = of_int a / of_int b" using q by (rule quotient_of_div)
  have a: "0 < a" using x b by (simp add: xd zero_less_divide_iff)
  let ?k = "bitlen a - bitlen b"
  show ?thesis
  proof (cases "2 powi ?k \<le> x")
    case True
    then show ?thesis by (simp add: flog2_def q Let_def)
  next
    case False
    have la: "1 \<le> bitlen a" using a by (simp add: bitlen_alt_def)
    have "2 ^ nat (bitlen a - 1) \<le> a" using bitlen_bounds [OF a] by simp
    then have "(of_int (2 ^ nat (bitlen a - 1)) :: rat) \<le> of_int a" by (simp only: of_int_le_iff)
    then have A: "(2 :: rat) powi (bitlen a - 1) \<le> of_int a"
      using la by (simp add: power_int_def)
    have "b < 2 ^ nat (bitlen b)" using bitlen_bounds [OF b] by simp
    then have "b \<le> 2 ^ nat (bitlen b)" by simp
    then have "(of_int b :: rat) \<le> of_int (2 ^ nat (bitlen b))" by (simp only: of_int_le_iff)
    then have B: "(of_int b :: rat) \<le> 2 powi (bitlen b)"
      using bitlen_nonneg [of b] by (simp add: power_int_def)
    have "(2 :: rat) powi (?k - 1) = 2 powi (bitlen a - 1) / 2 powi (bitlen b)"
      using power_int_diff [of "2 :: rat" "bitlen a - 1" "bitlen b"] by (simp add: algebra_simps)
    also have "\<dots> \<le> of_int a / of_int b"
      by (rule frac_le) (use A B b a in simp_all)
    finally have "(2 :: rat) powi (?k - 1) \<le> x" by (simp only: xd)
    then show ?thesis using False by (simp add: flog2_def q Let_def)
  qed
qed


lemma grid_le:
  "x \<le> of_int m * 2 powi e \<Longrightarrow> of_int (round_rat (x / 2 powi e)) * 2 powi e \<le> of_int m * (2 :: rat) powi e"
proof -
  assume le: "x \<le> of_int m * 2 powi e"
  have p: "(0 :: rat) < 2 powi e" by simp
  have "x / 2 powi e \<le> of_int m" using le p by (simp only: pos_divide_le_eq)
  then have "round_rat (x / 2 powi e) \<le> m" by (rule round_rat_le)
  then have "(of_int (round_rat (x / 2 powi e)) :: rat) \<le> of_int m" by (simp only: of_int_le_iff)
  then show ?thesis using p by (simp only: mult_le_cancel_right_pos)
qed

lemma grid_ge:
  "of_int m * 2 powi e \<le> x \<Longrightarrow> of_int m * (2 :: rat) powi e \<le> of_int (round_rat (x / 2 powi e)) * 2 powi e"
proof -
  assume le: "of_int m * 2 powi e \<le> x"
  have p: "(0 :: rat) < 2 powi e" by simp
  have "of_int m \<le> x / 2 powi e" using le p by (simp only: pos_le_divide_eq)
  then have "m \<le> round_rat (x / 2 powi e)" by (rule round_rat_ge)
  then have "(of_int m :: rat) \<le> of_int (round_rat (x / 2 powi e))" by (simp only: of_int_le_iff)
  then show ?thesis using p by (simp only: mult_le_cancel_right_pos)
qed

lemma on_grid:
  "e \<le> - int k \<Longrightarrow> of_int c / 2 ^ k = of_int (c * 2 ^ nat (- int k - e)) * (2 :: rat) powi e"
proof -
  assume e: "e \<le> - int k"
  have "(2 :: rat) powi (- int k - e) * 2 powi e = 2 powi (- int k - e + e)"
    by (rule power_int_add [symmetric]) simp
  then have a: "(2 :: rat) powi (- int k - e) * 2 powi e = 1 / 2 ^ k"
    by (simp add: power_int_minus divide_simps)
  have b: "(of_int (2 ^ nat (- int k - e)) :: rat) = 2 powi (- int k - e)"
    using e by (simp add: power_int_def)
  have "of_int (c * 2 ^ nat (- int k - e)) * (2 :: rat) powi e
      = of_int c * (2 powi (- int k - e) * 2 powi e)"
    by (simp only: of_int_mult b mult.assoc)
  then show ?thesis by (simp only: a) simp
qed

lemma double_upper:
  assumes x: "0 < x" and le: "x \<le> of_int c / 2 ^ k" and c: "c < 2 ^ 53" and k: "k \<le> 1074"
  shows "double_of_pos x \<le> of_int c / 2 ^ k"
proof -
  define e where "e = max (flog2 x - 52) (- 1074)"
  have d: "double_of_pos x = of_int (round_rat (x / 2 powi e)) * 2 powi e"
    by (simp add: double_of_pos_def e_def Let_def)
  show ?thesis
  proof (cases "e \<le> - int k")
    case True
    have g: "of_int c / 2 ^ k = of_int (c * 2 ^ nat (- int k - e)) * (2 :: rat) powi e"
      using True by (rule on_grid)
    show ?thesis using le unfolding d g by (rule grid_le)
  next
    case False
    then have "53 - int k \<le> flog2 x" using k by (simp add: e_def)
    then have "(2 :: rat) powi (53 - int k) \<le> 2 powi (flog2 x)"
      by (rule power_int_increasing) simp
    also have "\<dots> \<le> x" using x by (rule flog2_le)
    finally have "(2 :: rat) powi (53 - int k) \<le> of_int c / 2 ^ k" using le by simp
    moreover have "(2 :: rat) powi (53 - int k) = 2 ^ 53 / 2 ^ k"
      using power_int_diff [of "2 :: rat" 53 "int k"] by simp
    ultimately have "(2 :: rat) ^ 53 \<le> of_int c" by (simp add: divide_le_cancel)
    then have "(of_int (2 ^ 53) :: rat) \<le> of_int c" by simp
    then have "2 ^ 53 \<le> c" by (simp only: of_int_le_iff)
    then show ?thesis using c by simp
  qed
qed

lemma double_lower:
  assumes le: "of_int c / 2 ^ k \<le> x" and c0: "0 < c" and c: "c \<le> 2 ^ 53" and k: "k \<le> 1074"
  shows "of_int c / 2 ^ k \<le> double_of_pos x"
proof -
  define e where "e = max (flog2 x - 52) (- 1074)"
  have d: "double_of_pos x = of_int (round_rat (x / 2 powi e)) * 2 powi e"
    by (simp add: double_of_pos_def e_def Let_def)
  have "(0 :: rat) < of_int c / 2 ^ k" using c0 by simp
  then have x: "0 < x" using le by simp
  show ?thesis
  proof (cases "e \<le> - int k")
    case True
    have g: "of_int c / 2 ^ k = of_int (c * 2 ^ nat (- int k - e)) * (2 :: rat) powi e"
      using True by (rule on_grid)
    show ?thesis using le unfolding d g by (rule grid_ge)
  next
    case False
    then have e: "e = flog2 x - 52" and ek: "53 - int k \<le> flog2 x" using k by (simp_all add: e_def)
    have "(2 :: rat) powi 52 * 2 powi e = 2 powi (52 + e)"
      by (rule power_int_add [symmetric]) simp
    then have f: "of_int (2 ^ 52) * (2 :: rat) powi e = 2 powi (flog2 x)" by (simp add: e)
    have "(of_int c :: rat) \<le> of_int (2 ^ 53)" using c by (simp only: of_int_le_iff)
    then have "(of_int c :: rat) / 2 ^ k \<le> 2 ^ 53 / 2 ^ k" by (simp add: divide_le_cancel)
    also have "\<dots> = (2 :: rat) powi (53 - int k)"
      using power_int_diff [of "2 :: rat" 53 "int k"] by simp
    also have "\<dots> \<le> 2 powi (flog2 x)" using ek by (rule power_int_increasing) simp
    also have "\<dots> = of_int (2 ^ 52) * (2 :: rat) powi e" by (rule f [symmetric])
    also have "\<dots> \<le> double_of_pos x"
      unfolding d by (rule grid_ge) (simp only: f flog2_le [OF x])
    finally show ?thesis .
  qed
qed

lemma to_double_upper:
  "0 \<le> x \<Longrightarrow> x \<le> of_int c / 2 ^ k \<Longrightarrow> c < 2 ^ 53 \<Longrightarrow> k \<le> 1074 \<Longrightarrow> to_double x \<le> of_int c / 2 ^ k"
  by (cases "x = 0") (simp_all add: to_double_def double_upper)

lemma to_double_lower:
  "of_int c / 2 ^ k \<le> x \<Longrightarrow> 0 < c \<Longrightarrow> c \<le> 2 ^ 53 \<Longrightarrow> k \<le> 1074 \<Longrightarrow> of_int c / 2 ^ k \<le> to_double x"
proof -
  assume le: "of_int c / 2 ^ k \<le> x" and c0: "0 < c" and c: "c \<le> 2 ^ 53" and k: "k \<le> 1074"
  have "(0 :: rat) < of_int c / 2 ^ k" using c0 by simp
  then have "0 < x" using le by simp
  then show ?thesis using double_lower [OF le c0 c k] by (simp add: to_double_def)
qed

lemma to_double_nonneg: "0 \<le> x \<Longrightarrow> 0 \<le> to_double x"
proof (cases "x = 0")
  case True
  then show ?thesis by (simp add: to_double_def)
next
  case False
  assume "0 \<le> x"
  then have x: "0 < x" using False by simp
  define e where "e = max (flog2 x - 52) (- 1074)"
  have "(of_int 0 :: rat) \<le> x / 2 powi e" using x by simp
  then have "0 \<le> round_rat (x / 2 powi e)" by (rule round_rat_ge)
  then have "0 \<le> double_of_pos x" by (simp add: double_of_pos_def Let_def e_def)
  then show ?thesis using x by (simp add: to_double_def)
qed

lemma py_round2_le_100: "0 \<le> x \<Longrightarrow> x \<le> 100 \<Longrightarrow> py_round2 x \<le> 100"
proof -
  assume x0: "0 \<le> x" and x: "x \<le> 100"
  have "x * 100 \<le> of_int 10000" using x by simp
  then have "round_rat (x * 100) \<le> 10000" by (rule round_rat_le)
  then have "(of_int (round_rat (x * 100)) :: rat) \<le> of_int 10000" by (simp only: of_int_le_iff)
  then have u: "(of_int (round_rat (x * 100)) :: rat) / 100 \<le> of_int 100 / 2 ^ 0" by simp
  have "of_int 0 \<le> x * 100" using x0 by simp
  then have "0 \<le> round_rat (x * 100)" by (rule round_rat_ge)
  then have l: "(0 :: rat) \<le> of_int (round_rat (x * 100)) / 100" by simp
  have "to_double (of_int (round_rat (x * 100)) / 100) \<le> of_int 100 / 2 ^ 0"
    using l u by (rule to_double_upper) simp_all
  then show ?thesis by (simp add: py_round2_def)
qed

lemma py_round2_gt_100: "3225 / 32 \<le> x \<Longrightarrow> 100 < py_round2 x"
proof -
  assume x: "3225 / 32 \<le> x"
  have "of_int 10078 \<le> x * 100" using x by simp
  then have "10078 \<le> round_rat (x * 100)" by (rule round_rat_ge)
  then have "(of_int 10078 :: rat) \<le> of_int (round_rat (x * 100))" by (simp only: of_int_le_iff)
  then have "of_int 201 / 2 ^ 1 \<le> (of_int (round_rat (x * 100)) :: rat) / 100" by simp
  then have "of_int 201 / 2 ^ 1 \<le> to_double (of_int (round_rat (x * 100)) / 100)"
    by (rule to_double_lower) simp_all
  then show ?thesis by (simp add: py_round2_def)
qed

lemma percent_le_100: "0 < fs \<Longrightarrow> int n \<le> fs \<Longrightarrow> percent_of n fs \<le> 100"
proof -
  assume fs: "0 < fs" and n: "int n \<le> fs"
  let ?q = "of_nat n / of_int fs :: rat"
  have "(of_int (int n) :: rat) \<le> of_int fs" using n by (simp only: of_int_le_iff)
  then have q1: "?q \<le> of_int 1 / 2 ^ 0" using fs by simp
  have q0: "0 \<le> ?q" using fs by simp
  have a1: "to_double ?q \<le> of_int 1 / 2 ^ 0" using q0 q1 by (rule to_double_upper) simp_all
  have a0: "0 \<le> to_double ?q" using q0 by (rule to_double_nonneg)
  have b1: "to_double ?q * 100 \<le> of_int 100 / 2 ^ 0" using a1 by simp
  have b0: "0 \<le> to_double ?q * 100" using a0 by simp
  have c1: "to_double (to_double ?q * 100) \<le> of_int 100 / 2 ^ 0"
    using b0 b1 by (rule to_double_upper) simp_all
  have c0: "0 \<le> to_double (to_double ?q * 100)" using b0 by (rule to_double_nonneg)
  have "py_round2 (to_double (to_double ?q * 100)) \<le> 100"
    using c0 c1 by (simp add: py_round2_le_100)
  then show ?thesis by (simp add: percent_of_def)
qed

lemma percent_gt_100: "0 < fs \<Longrightarrow> 101 * fs \<le> 100 * int n \<Longrightarrow> 100 < percent_of n fs"
proof -
  assume fs: "0 < fs" and n: "101 * fs \<le> 100 * int n"
  let ?q = "of_nat n / of_int fs :: rat"
  have "129 * fs \<le> 128 * int n" using fs n by simp
  then have "(of_int (129 * fs) :: rat) \<le> of_int (128 * int n)" by (simp only: of_int_le_iff)
  then have "(129 :: rat) * of_int fs \<le> 128 * of_nat n" by simp
  then have "of_int 129 / 2 ^ 7 \<le> ?q" using fs by (simp add: pos_le_divide_eq)
  then have "of_int 129 / 2 ^ 7 \<le> to_double ?q" by (rule to_double_lower) simp_all
  then have "of_int 3225 / 2 ^ 5 \<le> to_double ?q * 100" by simp
  then have "of_int 3225 / 2 ^ 5 \<le> to_double (to_double ?q * 100)"
    by (rule to_double_lower) simp_all
  then have "100 < py_round2 (to_double (to_double ?q * 100))"
    by (simp add: py_round2_gt_100)
  then show ?thesis by (simp add: percent_of_def)
qed

lemma files_emit [simp]: "files (emit e st) = files st"
  by (simp add: emit_def)

lemma events_emit [simp]: "events (emit e st) = events st @ [e]"
  by (simp add: emit_def)

lemma files_append_file:
  "files (append_file p d st) p = Some (case files st p of None \<Rightarrow> d | Some old \<Rightarrow> old @ d)"
  by (simp add: append_file_def)

text \<open>
  C9, as the code has it.  When \<open>save_file\<close> has written a chunk and the declared size is a
  positive integer \<open>fs\<close>, the last event reports \<open>round(on_disk / fs * 100, 2)\<close> for the
  content now on disk, computed in floats (the quotient, its product with 100 and the
  result of \<open>round\<close> are each rounded to the nearest float), with no upper bound applied:
  the value is at most 100 when the file is no longer than \<open>fs\<close>, and above 100 as soon as
  the file is one percent longer than \<open>fs\<close>.
\<close>

theorem save_file_percent:
  assumes "save_file E sessionID path dat filesize appending st = (Returns (), st')"
    and "prefix (safe_path E) (save_target E st sessionID path)"
    and "py_int filesize = Some fs" and "0 < fs"
  shows "\<exists>content. files st' (save_target E st sessionID path) = Some content
     \<and> reported_percent (last (events st')) = Some (percent_of (length content) fs)
     \<and> percent_of (length content) fs
         = py_round2 (to_double (to_double (of_nat (length content) / of_int fs) * 100))
     \<and> (int (length content) \<le> fs \<longrightarrow> percent_of (length content) fs \<le> 100)
     \<and> (101 * fs \<le> 100 * int (length content) \<longrightarrow> 100 < percent_of (length content) fs)"
proof -
  let ?T = "save_target E st sessionID path"
  have "\<exists>c. files st' ?T = Some c
     \<and> reported_percent (last (events st')) = Some (percent_of (length c) fs)"
    using assms(1,2,3)
    by (auto simp: save_file_def Let_def files_append_file reported_percent_def
          split: if_splits option.splits prod.splits)
  then obtain content where c: "files st' ?T = Some content"
    "reported_percent (last (events st')) = Some (percent_of (length content) fs)" by blast
  moreover have "percent_of (length content) fs
      = py_round2 (to_double (to_double (of_nat (length content) / of_int fs) * 100))"
    by (simp add: percent_of_def)
  ultimately show ?thesis
    using percent_le_100 [OF assms(4)] percent_gt_100 [OF assms(4)] by blast
qed

theorem save_file_percent_witness:
  "save_file test_env ''K7X2'' ''notes.txt'' ''ab'' ''4'' False (one_agent ''K7X2'')
     = (Returns (), (one_agent ''K7X2'')
          \<lparr>files := [''/opt/Empire/downloads/K7X2/notes.txt'' \<mapsto> ''ab''],
           events := events (one_agent ''K7X2'')
                     @ [Event ''agents/K7X2'' True (FilePartSaved ''notes.txt'' ''K7X2'' 50)]\<rparr>)
   \<and> prefix (safe_path test_env) (save_target test_env (one_agent ''K7X2'') ''K7X2'' ''notes.txt'')
   \<and> py_int ''4'' = Some 4 \<and> (0::int) < 4
   \<and> (\<exists>content.
         files ((one_agent ''K7X2'')
                  \<lparr>files := [''/opt/Empire/downloads/K7X2/notes.txt'' \<mapsto> ''ab''],
                   events := events (one_agent ''K7X2'')
                             @ [Event ''agents/K7X2'' True
                                  (FilePartSaved ''notes.txt'' ''K7X2'' 50)]\<rparr>)
           (save_target test_env (one_agent ''K7X2'') ''K7X2'' ''notes.txt'') = Some content
        \<and> int (length content) \<le> 4 \<and> percent_of (length content) 4 \<le> 100)"
proof -
  have a: "save_file test_env ''K7X2'' ''notes.txt'' ''ab'' ''4'' False (one_agent ''K7X2'')
     = (Returns (), (one_agent ''K7X2'')
          \<lparr>files := [''/opt/Empire/downloads/K7X2/notes.txt'' \<mapsto> ''ab''],
           events := events (one_agent ''K7X2'')
                     @ [Event ''agents/K7X2'' True (FilePartSaved ''notes.txt'' ''K7X2'' 50)]\<rparr>)"
    by (simp add: save_file_def save_target_def safe_path_def one_agent_eval eval_defs
          percent_of_2_4)
  have b: "prefix (safe_path test_env)
             (save_target test_env (one_agent ''K7X2'') ''K7X2'' ''notes.txt'')"
    by (simp add: save_target_def safe_path_def one_agent_eval eval_defs)
  have c: "py_int ''4'' = Some 4" by (simp add: eval_defs)
  have t: "save_target test_env (one_agent ''K7X2'') ''K7X2'' ''notes.txt''
             = ''/opt/Empire/downloads/K7X2/notes.txt''"
    by (simp add: save_target_def safe_path_def one_agent_eval eval_defs)
  from save_file_percent [OF a b c] a b c t show ?thesis by auto
qed

text \<open>
  C9, as the claim states it, fails: two bytes saved for a declared size of one byte are
  reported as 200 percent.
\<close>

theorem save_file_percent_uncapped:
  "reported_percent
     (last (events (snd (save_file test_env ''K7X2'' ''notes.txt'' ''ab'' ''1'' False
                           (one_agent ''K7X2''))))) = Some 200
   \<and> \<not> (200::rat) \<le> 100"
  by (simp add: save_file_def save_target_def safe_path_def one_agent_eval eval_defs
        reported_percent_def percent_of_2_1)

subsection \<open>add_agent_task_db: the task ids\<close>

lemma ids_upto_0: "ids_upto 0 = []" by (simp add: ids_upto_def)
lemma ids_upto_Suc: "ids_upto (Suc k) = ids_upto k @ [int (Suc k)]" by (simp add: ids_upto_def)

lemma max_id_snoc:
  "max_id (xs @ [y]) = Some (case max_id xs of None \<Rightarrow> y | Some m \<Rightarrow> max m y)"
  by (cases xs) (auto simp: max_id_def max.commute)

lemma max_id_upto: "max_id (ids_upto k) = (if k = 0 then None else Some (int k))"
proof (induction k)
  case 0
  then show ?case by (simp add: max_id_def ids_upto_0)
next
  case (Suc k)
  then show ?case by (simp add: ids_upto_Suc max_id_snoc)
qed

lemma next_id_upto: "k < 65535 \<Longrightarrow> next_id (ids_upto k) = int (Suc k)"
  by (simp add: next_id_def max_id_upto)

lemma id_seq_upto:
  "k + n \<le> 65535 \<Longrightarrow> ids_upto k @ id_seq n (ids_upto k) = ids_upto (k + n)"
proof (induction n arbitrary: k)
  case 0
  then show ?case by simp
next
  case (Suc n)
  have k: "k < 65535" using Suc.prems by simp
  have "ids_upto k @ id_seq (Suc n) (ids_upto k)
          = ids_upto (Suc k) @ id_seq n (ids_upto (Suc k))"
    using next_id_upto [OF k] by (simp add: ids_upto_Suc)
  also have "\<dots> = ids_upto (Suc k + n)" using Suc.IH [of "Suc k"] Suc.prems by simp
  finally show ?case by simp
qed

lemma id_seq_append: "id_seq (m + n) ids = id_seq m ids @ id_seq n (ids @ id_seq m ids)"
  by (induction m arbitrary: ids) auto

lemma id_seq_first: "id_seq 65535 [] = ids_upto 65535"
  using id_seq_upto [of 0 65535] by (simp add: ids_upto_0)

lemma id_seq_wrap: "id_seq (Suc (Suc 0)) (ids_upto 65535) = [0, 0]"
proof -
  have m: "max_id (ids_upto 65535) = Some 65535"
    using max_id_upto [of 65535] by simp
  have n1: "next_id (ids_upto 65535) = 0" by (simp add: next_id_def m)
  have n2: "next_id (ids_upto 65535 @ [0]) = 0"
    by (simp add: next_id_def max_id_snoc m)
  show ?thesis using n1 n2 by simp
qed

lemma id_seq_65537: "id_seq 65537 [] = map int [1..<65536] @ [0, 0]"
proof -
  have "id_seq (65535 + Suc (Suc 0)) [] = id_seq 65535 [] @ id_seq (Suc (Suc 0)) ([] @ id_seq 65535 [])"
    by (rule id_seq_append)
  moreover have "(65535::nat) + Suc (Suc 0) = 65537" by simp
  ultimately have "id_seq 65537 [] = ids_upto 65535 @ [0, 0]"
    by (simp only: id_seq_first id_seq_wrap append_Nil)
  then show ?thesis by (simp add: ids_upto_def)
qed

lemma find_keys:
  "map (\<lambda>r. (name r, session_id r)) xs = map (\<lambda>r. (name r, session_id r)) ys \<Longrightarrow>
   map_option session_id (find (\<lambda>r. name r = nm) xs)
     = map_option session_id (find (\<lambda>r. name r = nm) ys)"
  by (induction xs arbitrary: ys) auto

lemma resolve_id_keys: "row_keys st' = row_keys st \<Longrightarrow> resolve_id st' sid = resolve_id st sid"
  using find_keys [of "orm_rows st'" "orm_rows st" sid]
  by (simp add: resolve_id_def get_agent_id_db_def query_first_def row_keys_def)

lemma add_task_result:
  assumes "sid \<noteq> []" "sid \<in> dom (agents st)" "resolve_id st sid = sid"
  shows "fst (add_agent_task_db E sid tn tk m u st) = Some (next_id (agent_task_ids st sid))"
  using assms by (simp add: add_agent_task_db_def Let_def next_id_def agent_task_ids_def emit_def)

lemma add_task_agents: "agents (snd (add_agent_task_db E sid tn tk m u st)) = agents st"
  by (simp add: add_agent_task_db_def Let_def emit_def write_file_def split: option.splits)

lemma add_task_session: "session_objs (snd (add_agent_task_db E sid tn tk m u st)) = session_objs st"
  by (simp add: add_agent_task_db_def Let_def emit_def write_file_def split: option.splits)

lemma add_task_ids:
  assumes "sid \<noteq> []" "sid \<in> dom (agents st)" "resolve_id st sid = sid"
  shows "agent_task_ids (snd (add_agent_task_db E sid tn tk m u st)) sid
           = agent_task_ids st sid @ [next_id (agent_task_ids st sid)]"
  using assms
  by (simp add: add_agent_task_db_def Let_def next_id_def agent_task_ids_def emit_def write_file_def
        split: option.splits)

lemma add_task_tbl_keys:
  "map (\<lambda>r. (name r, session_id r)) (tbl_agents (snd (add_agent_task_db E sid tn tk m u st)))
     = map (\<lambda>r. (name r, session_id r)) (tbl_agents st)"
  by (simp add: add_agent_task_db_def Let_def emit_def write_file_def o_def split: option.splits)

lemma view_key:
  "(name x, session_id x) = (name y, session_id y) \<Longrightarrow> session_objs st' = session_objs st \<Longrightarrow>
   (name (session_view st' x), session_id (session_view st' x))
     = (name (session_view st y), session_id (session_view st y))"
  by (simp add: session_view_def split: option.splits)

lemma row_keys_cong:
  assumes "session_objs st' = session_objs st"
    and "map (\<lambda>r. (name r, session_id r)) (tbl_agents st')
           = map (\<lambda>r. (name r, session_id r)) (tbl_agents st)"
  shows "row_keys st' = row_keys st"
proof -
  have "map (\<lambda>r. (name r, session_id r)) xs = map (\<lambda>r. (name r, session_id r)) ys \<Longrightarrow>
        map (\<lambda>r. (name (session_view st' r), session_id (session_view st' r))) xs
          = map (\<lambda>r. (name (session_view st r), session_id (session_view st r))) ys" for xs ys
  proof (induction xs arbitrary: ys)
    case Nil
    then show ?case by simp
  next
    case (Cons x xs)
    then obtain y ys' where ys: "ys = y # ys'" by (cases ys) auto
    with Cons.prems have k: "(name x, session_id x) = (name y, session_id y)"
      and r: "map (\<lambda>r. (name r, session_id r)) xs = map (\<lambda>r. (name r, session_id r)) ys'"
      by auto
    show ?case using view_key [OF k assms(1)] Cons.IH [OF r] ys by simp
  qed
  then show ?thesis using assms(2) by (simp add: row_keys_def orm_rows_def o_def)
qed

lemma wf_cong:
  assumes "session_objs st' = session_objs st"
    and "map (\<lambda>r. (name r, session_id r)) (tbl_agents st')
           = map (\<lambda>r. (name r, session_id r)) (tbl_agents st)"
    and "store_wf st"
  shows "store_wf st'"
proof -
  have ids: "map session_id (tbl_agents st') = map session_id (tbl_agents st)"
    using arg_cong [OF assms(2), of "map snd"] by (simp add: o_def)
  have "map session_id xs = map session_id ys \<Longrightarrow>
        list_all (\<lambda>r. session_id (session_view st r) = session_id r) ys \<Longrightarrow>
        list_all (\<lambda>r. session_id (session_view st' r) = session_id r) xs" for xs ys
  proof (induction xs arbitrary: ys)
    case Nil
    then show ?case by simp
  next
    case (Cons x xs)
    then obtain y ys' where ys: "ys = y # ys'" by (cases ys) auto
    with Cons.prems have "session_id x = session_id y" "map session_id xs = map session_id ys'"
      "session_id (session_view st y) = session_id y"
      "list_all (\<lambda>r. session_id (session_view st r) = session_id r) ys'" by auto
    then show ?case using Cons.IH [of ys'] assms(1)
      by (auto simp: session_view_def split: option.splits)
  qed
  then show ?thesis using assms(3) ids by (simp add: store_wf_def)
qed

lemma add_task_keys: "row_keys (snd (add_agent_task_db E sid tn tk m u st)) = row_keys st"
  by (rule row_keys_cong [OF add_task_session add_task_tbl_keys])

lemma add_task_wf: "store_wf st \<Longrightarrow> store_wf (snd (add_agent_task_db E sid tn tk m u st))"
  by (rule wf_cong [OF add_task_session add_task_tbl_keys])

lemma drain_agents: "agents (snd (get_agent_tasks_db sid st)) = agents st"
  by (simp add: get_agent_tasks_db_def Let_def orm_assign_def split: option.splits)

lemma drain_tbl: "tbl_agents (snd (get_agent_tasks_db sid st)) = tbl_agents st"
  by (simp add: get_agent_tasks_db_def Let_def orm_assign_def split: option.splits)

lemma drain_taskings: "tbl_taskings (snd (get_agent_tasks_db sid st)) = tbl_taskings st"
  by (simp add: get_agent_tasks_db_def Let_def orm_assign_def split: option.splits)

lemma wf_view_id: "store_wf st \<Longrightarrow> t \<in> set (tbl_agents st) \<Longrightarrow> session_id (session_view st t) = session_id t"
  by (simp add: store_wf_def list_all_iff)

lemma find_view:
  assumes wf: "store_wf st" and f: "query_first (\<lambda>r. session_id r = s) st = Some r"
    and t: "t \<in> set (tbl_agents st)" "session_id t = s"
  shows "session_view st t = r"
proof -
  from f have "r \<in> set (orm_rows st)" "session_id r = s"
    by (auto simp: query_first_def find_Some_iff in_set_conv_nth)
  then obtain t0 where t0: "t0 \<in> set (tbl_agents st)" "r = session_view st t0"
    by (auto simp: orm_rows_def)
  then have "session_id t0 = s" using wf_view_id [OF wf t0(1)] \<open>session_id r = s\<close> by simp
  moreover have "inj_on session_id (set (tbl_agents st))"
    using wf by (simp add: store_wf_def distinct_map)
  ultimately have "t0 = t" using t t0(1) by (auto dest: inj_onD)
  then show ?thesis using t0 by simp
qed

lemma drain_keys_wf:
  assumes wf: "store_wf st"
  shows "row_keys (snd (get_agent_tasks_db sid st)) = row_keys st
         \<and> store_wf (snd (get_agent_tasks_db sid st))"
proof (cases "resolve_id st sid \<in> dom (agents st)
              \<and> (\<exists>r. query_first (\<lambda>r. session_id r = resolve_id st sid) st = Some r \<and> taskings r \<noteq> [])")
  case False
  then have "snd (get_agent_tasks_db sid st) = st"
    by (auto simp: get_agent_tasks_db_def Let_def split: option.splits)
  then show ?thesis using wf by simp
next
  case True
  let ?s = "resolve_id st sid"
  from True obtain r where r: "query_first (\<lambda>r. session_id r = ?s) st = Some r" "taskings r \<noteq> []"
    by blast
  have sr: "session_id r = ?s" using r(1) by (auto simp: query_first_def find_Some_iff)
  let ?st' = "orm_assign (r\<lparr>taskings := []\<rparr>) st"
  have st': "snd (get_agent_tasks_db sid st) = ?st'"
    using True r by (simp add: get_agent_tasks_db_def Let_def)
  have v: "session_view ?st' t = (if session_id t = ?s then r\<lparr>taskings := []\<rparr> else session_view st t)" for t
    using sr by (simp add: session_view_def orm_assign_def)
  have tb: "tbl_agents ?st' = tbl_agents st" by (simp add: orm_assign_def)
  have k: "\<forall>t \<in> set (tbl_agents st).
             (name (session_view ?st' t), session_id (session_view ?st' t))
               = (name (session_view st t), session_id (session_view st t))"
    using find_view [OF wf r(1)] by (auto simp: v)
  have "row_keys ?st' = row_keys st"
    unfolding row_keys_def orm_rows_def tb using k by (simp add: o_def)
  moreover have "store_wf ?st'"
    using wf sr by (auto simp: store_wf_def tb v list_all_iff)
  ultimately show ?thesis by (simp add: st')
qed

lemma rounds_ids:
  assumes "store_wf st" "sid \<noteq> []" "sid \<in> dom (agents st)" "resolve_id st sid = sid"
  shows "enqueue_drain_ids n E sid tn tk st = map Some (id_seq n (agent_task_ids st sid))"
  using assms
proof (induction n arbitrary: st)
  case 0
  then show ?case by simp
next
  case (Suc n)
  let ?r = "add_agent_task_db E sid tn tk None None st"
  let ?st1 = "snd ?r"
  let ?st2 = "snd (get_agent_tasks_db sid ?st1)"
  have res: "fst ?r = Some (next_id (agent_task_ids st sid))"
    using Suc.prems by (simp add: add_task_result)
  have wf1: "store_wf ?st1" using Suc.prems(1) by (rule add_task_wf)
  have k2: "row_keys ?st2 = row_keys st" and wf2: "store_wf ?st2"
    using drain_keys_wf [OF wf1, of sid] add_task_keys [of E sid tn tk None None st] by simp_all
  have a2: "sid \<in> dom (agents ?st2)" using Suc.prems(3) by (simp add: drain_agents add_task_agents)
  have r2: "resolve_id ?st2 sid = sid" using resolve_id_keys [OF k2] Suc.prems(4) by simp
  have i2: "agent_task_ids ?st2 sid = agent_task_ids st sid @ [next_id (agent_task_ids st sid)]"
    using add_task_ids [OF Suc.prems(2,3,4), of E tn tk None None]
    by (simp add: agent_task_ids_def drain_taskings)
  show ?case using Suc.IH [OF wf2 Suc.prems(2) a2 r2] res i2 by (simp add: Let_def)
qed

lemma max_id_Max: "max_id xs = (if xs = [] then None else Some (Max (set xs)))"
proof (cases xs)
  case Nil
  then show ?thesis by (simp add: max_id_def)
next
  case (Cons a list)
  have "Max (set (a # list)) = fold max list a" by (rule Max.set_eq_fold)
  then show ?thesis using Cons by (simp add: max_id_def)
qed

lemma one_agent_known:
  "store_wf (one_agent ''K7X2'') \<and> ''K7X2'' \<noteq> [] \<and> ''K7X2'' \<in> dom (agents (one_agent ''K7X2''))
   \<and> resolve_id (one_agent ''K7X2'') ''K7X2'' = ''K7X2''
   \<and> agent_task_ids (one_agent ''K7X2'') ''K7X2'' = []"
  by (simp add: one_agent_eval store_wf_def agent_task_ids_def eval_defs)

text \<open>
  C4, as the code has it.  For an agent that is in the cache, \<open>add_agent_task_db\<close> returns
  1 when the agent has no task rows and otherwise (the largest id of its task rows + 1) mod
  65536.  Draining does not delete task rows.  So 65537 rounds of enqueue and drain, from
  no task rows, return the ids 1, 2, ..., 65535, 0, 0: once the row with id 65535 exists the
  largest id stays 65535 and every later task gets the id 0.
\<close>

theorem task_ids_after_wrap:
  assumes "store_wf st" "sid \<noteq> []" "sid \<in> dom (agents st)" "resolve_id st sid = sid"
  shows "fst (add_agent_task_db E sid tn tk m u st)
           = Some (if agent_task_ids st sid = [] then 1
                   else (Max (set (agent_task_ids st sid)) + 1) mod 65536)
         \<and> (agent_task_ids st sid = [] \<longrightarrow>
              enqueue_drain_ids 65537 E sid tn tk st = map Some (map int [1..<65536] @ [0, 0]))"
  using add_task_result [OF assms(2,3,4), of E tn tk m u] rounds_ids [OF assms, of 65537 E tn tk]
  by (simp add: next_id_def max_id_Max id_seq_65537)

theorem task_ids_after_wrap_witness:
  "store_wf (one_agent ''K7X2'') \<and> ''K7X2'' \<noteq> [] \<and> ''K7X2'' \<in> dom (agents (one_agent ''K7X2''))
   \<and> resolve_id (one_agent ''K7X2'') ''K7X2'' = ''K7X2''
   \<and> agent_task_ids (one_agent ''K7X2'') ''K7X2'' = []
   \<and> fst (add_agent_task_db test_env ''K7X2'' ''TASK_SHELL'' ''whoami'' None None (one_agent ''K7X2'')) = Some 1
   \<and> enqueue_drain_ids 65537 test_env ''K7X2'' ''TASK_SHELL'' ''whoami'' (one_agent ''K7X2'')
       = map Some (map int [1..<65536] @ [0, 0])"
  using task_ids_after_wrap [of "one_agent ''K7X2''" "''K7X2''" test_env "''TASK_SHELL''" "''whoami''" None None]
    one_agent_known
  by simp

text \<open>
  C4, as the claim states it, fails: the id sequence of 65537 rounds for the agent \<open>K7X2\<close>
  is not 1, 2, ..., 65535, 0, 1.
\<close>

theorem task_ids_no_restart_at_1:
  "enqueue_drain_ids 65537 test_env ''K7X2'' ''TASK_SHELL'' ''whoami'' (one_agent ''K7X2'')
     \<noteq> map Some (map int [1..<65536] @ [0, 1])"
proof -
  have "enqueue_drain_ids 65537 test_env ''K7X2'' ''TASK_SHELL'' ''whoami'' (one_agent ''K7X2'')
          = map Some (id_seq 65537 [])"
    using rounds_ids [of "one_agent ''K7X2''" "''K7X2''" 65537 test_env "''TASK_SHELL''" "''whoami''"]
      one_agent_known by simp
  then show ?thesis by (simp add: id_seq_65537)
qed

subsection \<open>handle_agent_staging: STAGE2\<close>




lemma orm_rows_cong:
  "tbl_agents st' = tbl_agents st \<Longrightarrow> session_objs st' = session_objs st \<Longrightarrow>
   orm_rows st' = orm_rows st"
proof -
  assume a: "tbl_agents st' = tbl_agents st" "session_objs st' = session_objs st"
  then have "session_view st' = session_view st" by (intro ext) (simp add: session_view_def)
  then show ?thesis using a by (simp add: orm_rows_def)
qed

lemma orm_rows_emit [simp]: "orm_rows (emit e st) = orm_rows st"
  by (rule orm_rows_cong) (simp_all add: emit_def)

lemma query_first_emit [simp]: "query_first P (emit e st) = query_first P st"
  by (simp add: query_first_def)

lemma resolve_id_emit [simp]: "resolve_id (emit e st) sid = resolve_id st sid"
  by (simp add: resolve_id_def get_agent_id_db_def)

lemma agents_emit [simp]: "agents (emit e st) = agents st" by (simp add: emit_def)
lemma tbl_agents_emit [simp]: "tbl_agents (emit e st) = tbl_agents st" by (simp add: emit_def)
lemma session_objs_emit [simp]: "session_objs (emit e st) = session_objs st" by (simp add: emit_def)










lemma agents_append_file [simp]: "agents (append_file p d st) = agents st" by (simp add: append_file_def)
lemma tbl_agents_append_file [simp]: "tbl_agents (append_file p d st) = tbl_agents st" by (simp add: append_file_def)
lemma events_append_file [simp]: "events (append_file p d st) = events st" by (simp add: append_file_def)
lemma agents_socket_emit [simp]: "agents (socket_emit E t s st) = agents st" by (simp add: socket_emit_def)
lemma tbl_agents_socket_emit [simp]: "tbl_agents (socket_emit E t s st) = tbl_agents st" by (simp add: socket_emit_def)
lemma events_socket_emit [simp]: "events (socket_emit E t s st) = events st" by (simp add: socket_emit_def)
lemma agents_commit [simp]: "agents (commit st) = agents st" by (simp add: commit_def)
lemma events_commit [simp]: "events (commit st) = events st" by (simp add: commit_def)
lemma agents_orm_assign [simp]: "agents (orm_assign r st) = agents st" by (simp add: orm_assign_def)
lemma events_orm_assign [simp]: "events (orm_assign r st) = events st" by (simp add: orm_assign_def)

lemma run_autoruns_agents [simp]: "agents (run_autoruns E sid lang st) = agents st"
  by (simp add: run_autoruns_def Let_def add_task_agents)




lemma session_view_emit [simp]: "session_view (emit e st) = session_view st"
  by (intro ext) (simp add: session_view_def)

lemma store_wf_emit [simp]: "store_wf (emit e st) = store_wf st"
  by (simp add: store_wf_def)















subsection \<open>handle_agent_staging: STAGE1 for python agents\<close>










subsection \<open>handle_agent_response\<close>

lemma process_all_append:
  "process_all E sid (ps @ qs) st
     = (case process_all E sid ps st of
          (Returns u, s1) \<Rightarrow> process_all E sid qs s1
        | (Raises e, s1) \<Rightarrow> (Raises e, s1))"
  by (induction ps arbitrary: st) (auto split: prod.splits outcome.splits)

lemma response_failure:
  assumes "agents st sid = Some entry"
    and "(if update_lastseen then update_agent_lastseen_db E sid st else (Returns (), st))
           = (Returns (), st1)"
  shows
    "(aes_decrypt_and_verify E (sessionKey entry) encData = Raises e \<longrightarrow>
        handle_agent_response E sid encData update_lastseen st
          = (Returns None,
             emit (Event (agent_sender sid) True (ErrorProcessingResult sid e)) st1))
     \<and> (aes_decrypt_and_verify E (sessionKey entry) encData = Returns packet
          \<and> parse_result_packets E packet = Raises e \<longrightarrow>
        handle_agent_response E sid encData update_lastseen st
          = (Returns None,
             emit (Event (agent_sender sid) True (ErrorProcessingResult sid e)) st1))
     \<and> (aes_decrypt_and_verify E (sessionKey entry) encData = Returns packet
          \<and> parse_result_packets E packet
              = Returns (earlier @ (responseName, totalPacket, packetNum, taskID, len, dat) # rest)
          \<and> process_all E sid earlier st1 = (Returns (), s1)
          \<and> process_agent_packet E sid responseName taskID dat s1 = (Raises e, s2) \<longrightarrow>
        handle_agent_response E sid encData update_lastseen st
          = (Returns None,
             emit (Event (agent_sender sid) True (ErrorProcessingResult sid e)) s2))"
  using assms
  by (auto simp: handle_agent_response_def and_then_def processing_failed_def process_all_append)

lemma utf8_hi: "utf8_valid ''hi''" "\<not> utf8_valid [CHR 0xFF]"
  by simp_all

lemma undecodable_shell:
  "\<not> utf8_valid dat \<Longrightarrow>
   fst (process_agent_packet E sid ''TASK_SHELL'' taskID dat s) = Raises UnicodeDecodeError"
  by (simp add: process_agent_packet_def Let_def results_and_log_def update_agent_results_db_def
        and_then_def)

lemma shell_ok_eval:
  "fst (process_all env_two_packets ''K7X2'' [shell_ok] (one_agent ''K7X2'')) = Returns ()"
  "map results (tbl_agents (snd (process_all env_two_packets ''K7X2'' [shell_ok] (one_agent ''K7X2''))))
     = [[CHR 0x0A] @ ''hi'']"
  by (simp_all add: shell_ok_def env_two_packets_def process_agent_packet_def record_result_def
        results_and_log_def update_agent_results_db_def save_agent_log_def and_then_def
        get_agent_name_db_def commit_def orm_assign_def one_agent_eval eval_defs)


lemma undecodable_shell_state:
  "\<not> utf8_valid dat \<Longrightarrow>
   tbl_agents (snd (process_agent_packet E sid ''TASK_SHELL'' 0 dat s)) = tbl_agents s"
  by (simp add: process_agent_packet_def Let_def results_and_log_def update_agent_results_db_def
        and_then_def record_result_def emit_def)

lemma two_packets_facts:
  "agents (one_agent ''K7X2'') ''K7X2'' = Some \<lparr>sessionKey = ''session-key'', cached_functions = []\<rparr>"
  "aes_decrypt_and_verify env_two_packets
     (sessionKey \<lparr>sessionKey = ''session-key'', cached_functions = []\<rparr>) ''body'' = Returns ''body''"
  "parse_result_packets env_two_packets ''body''
     = Returns ([shell_ok] @ (''TASK_SHELL'', 1, 1, 0, 1, [CHR 0xFF]) # [])"
  by (simp_all add: one_agent_eval env_two_packets_def test_env_def shell_bad_def)

lemma two_packets_result:
  "handle_agent_response env_two_packets ''K7X2'' ''body'' False (one_agent ''K7X2'')
     = (Returns None,
        emit (Event (agent_sender ''K7X2'') True (ErrorProcessingResult ''K7X2'' UnicodeDecodeError))
          (snd (process_agent_packet env_two_packets ''K7X2'' ''TASK_SHELL'' 0 [CHR 0xFF]
                  (snd (process_all env_two_packets ''K7X2'' [shell_ok] (one_agent ''K7X2''))))))"
proof -
  let ?s1 = "snd (process_all env_two_packets ''K7X2'' [shell_ok] (one_agent ''K7X2''))"
  let ?s2 = "snd (process_agent_packet env_two_packets ''K7X2'' ''TASK_SHELL'' 0 [CHR 0xFF] ?s1)"
  have u: "(if False then update_agent_lastseen_db env_two_packets ''K7X2'' (one_agent ''K7X2'')
            else (Returns (), one_agent ''K7X2'')) = (Returns (), one_agent ''K7X2'')" by simp
  have p1: "process_all env_two_packets ''K7X2'' [shell_ok] (one_agent ''K7X2'') = (Returns (), ?s1)"
    using shell_ok_eval(1) by (simp add: prod_eq_iff)
  have p2: "process_agent_packet env_two_packets ''K7X2'' ''TASK_SHELL'' 0 [CHR 0xFF] ?s1
              = (Raises UnicodeDecodeError, ?s2)"
    using undecodable_shell [OF utf8_hi(2), of env_two_packets "''K7X2''" 0 ?s1]
    by (simp add: prod_eq_iff)
  from response_failure [OF two_packets_facts(1) u] two_packets_facts(2,3) p1 p2
  show ?thesis by blast
qed

text \<open>
  C6, as the code has it.  Let the agent be in the cache and \<open>st1\<close> be the state after the
  optional update of the last-seen time.  When decryption fails, or the plaintext does not
  parse into result packets, a printed warning is emitted, \<open>None\<close> is returned and no packet
  has been processed.  When the packets parse and processing one of them raises, a printed
  warning is emitted and \<open>None\<close> is returned, the packets after it are not processed, and
  the state keeps what the packets before it, and the failing packet up to the exception,
  have changed: nothing is rolled back.
\<close>

theorem handle_agent_response_failure:
  assumes "agents st sid = Some entry"
    and "(if update_lastseen then update_agent_lastseen_db E sid st else (Returns (), st))
           = (Returns (), st1)"
  shows
    "(aes_decrypt_and_verify E (sessionKey entry) encData = Raises e \<longrightarrow>
        handle_agent_response E sid encData update_lastseen st
          = (Returns None,
             emit (Event (agent_sender sid) True (ErrorProcessingResult sid e)) st1))
     \<and> (aes_decrypt_and_verify E (sessionKey entry) encData = Returns packet
          \<and> parse_result_packets E packet = Raises e \<longrightarrow>
        handle_agent_response E sid encData update_lastseen st
          = (Returns None,
             emit (Event (agent_sender sid) True (ErrorProcessingResult sid e)) st1))
     \<and> (aes_decrypt_and_verify E (sessionKey entry) encData = Returns packet
          \<and> parse_result_packets E packet
              = Returns (earlier @ (responseName, totalPacket, packetNum, taskID, len, dat) # rest)
          \<and> process_all E sid earlier st1 = (Returns (), s1)
          \<and> process_agent_packet E sid responseName taskID dat s1 = (Raises e, s2) \<longrightarrow>
        handle_agent_response E sid encData update_lastseen st
          = (Returns None,
             emit (Event (agent_sender sid) True (ErrorProcessingResult sid e)) s2))"
  using assms by (rule response_failure)

theorem handle_agent_response_failure_witness:
  "handle_agent_response env_bad_mac ''K7X2'' ''body'' False (one_agent ''K7X2'')
     = (Returns None,
        emit (Event (agent_sender ''K7X2'') True (ErrorProcessingResult ''K7X2'' CryptoError))
          (one_agent ''K7X2''))
   \<and> handle_agent_response env_bad_parse ''K7X2'' ''body'' False (one_agent ''K7X2'')
     = (Returns None,
        emit (Event (agent_sender ''K7X2'') True (ErrorProcessingResult ''K7X2'' ValueError))
          (one_agent ''K7X2''))
   \<and> handle_agent_response env_two_packets ''K7X2'' ''body'' False (one_agent ''K7X2'')
     = (Returns None,
        emit (Event (agent_sender ''K7X2'') True (ErrorProcessingResult ''K7X2'' UnicodeDecodeError))
          (snd (process_agent_packet env_two_packets ''K7X2'' ''TASK_SHELL'' 0 [CHR 0xFF]
                  (snd (process_all env_two_packets ''K7X2'' [shell_ok] (one_agent ''K7X2''))))))"
proof -
  let ?s1 = "snd (process_all env_two_packets ''K7X2'' [shell_ok] (one_agent ''K7X2''))"
  let ?s2 = "snd (process_agent_packet env_two_packets ''K7X2'' ''TASK_SHELL'' 0 [CHR 0xFF] ?s1)"
  have u: "(if False then update_agent_lastseen_db E ''K7X2'' (one_agent ''K7X2'')
            else (Returns (), one_agent ''K7X2'')) = (Returns (), one_agent ''K7X2'')" for E by simp
  have m: "aes_decrypt_and_verify env_bad_mac
             (sessionKey \<lparr>sessionKey = ''session-key'', cached_functions = []\<rparr>) ''body''
             = Raises CryptoError"
    by (simp add: env_bad_mac_def)
  have q: "aes_decrypt_and_verify env_bad_parse
             (sessionKey \<lparr>sessionKey = ''session-key'', cached_functions = []\<rparr>) ''body''
             = Returns ''body''
           \<and> parse_result_packets env_bad_parse ''body'' = Raises ValueError"
    by (simp add: env_bad_parse_def test_env_def)
  have p1: "process_all env_two_packets ''K7X2'' [shell_ok] (one_agent ''K7X2'') = (Returns (), ?s1)"
    using shell_ok_eval(1) by (simp add: prod_eq_iff)
  have p2: "process_agent_packet env_two_packets ''K7X2'' ''TASK_SHELL'' 0 [CHR 0xFF] ?s1
              = (Raises UnicodeDecodeError, ?s2)"
    using undecodable_shell [OF utf8_hi(2), of env_two_packets "''K7X2''" 0 ?s1]
    by (simp add: prod_eq_iff)
  from handle_agent_response_failure [OF two_packets_facts(1) u, where E = env_bad_mac
         and encData = "''body''" and e = CryptoError] m
  have a: "handle_agent_response env_bad_mac ''K7X2'' ''body'' False (one_agent ''K7X2'')
     = (Returns None,
        emit (Event (agent_sender ''K7X2'') True (ErrorProcessingResult ''K7X2'' CryptoError))
          (one_agent ''K7X2''))" by blast
  from handle_agent_response_failure [OF two_packets_facts(1) u, where E = env_bad_parse
         and encData = "''body''" and packet = "''body''" and e = ValueError] q
  have b: "handle_agent_response env_bad_parse ''K7X2'' ''body'' False (one_agent ''K7X2'')
     = (Returns None,
        emit (Event (agent_sender ''K7X2'') True (ErrorProcessingResult ''K7X2'' ValueError))
          (one_agent ''K7X2''))" by blast
  from handle_agent_response_failure [OF two_packets_facts(1) u] two_packets_facts(2,3) p1 p2
  have c: "handle_agent_response env_two_packets ''K7X2'' ''body'' False (one_agent ''K7X2'')
     = (Returns None,
        emit (Event (agent_sender ''K7X2'') True (ErrorProcessingResult ''K7X2'' UnicodeDecodeError)) ?s2)"
    by blast
  show ?thesis using a b c by blast
qed

text \<open>
  C6, as the claim states it, fails: for a body of two TASK_SHELL packets whose second
  carries the byte 0xFF, the handler returns \<open>None\<close> and the output of the first packet has
  been appended to the results of the agent.
\<close>

theorem response_partially_applied:
  "fst (handle_agent_response env_two_packets ''K7X2'' ''body'' False (one_agent ''K7X2''))
     = Returns None
   \<and> map results (tbl_agents (one_agent ''K7X2'')) = [[]]
   \<and> map results (tbl_agents (snd (handle_agent_response env_two_packets ''K7X2'' ''body'' False
                                      (one_agent ''K7X2''))))
       = [json_dumps env_two_packets ([CHR 0x0A] @ ''hi'')]
   \<and> json_dumps env_two_packets ([CHR 0x0A] @ ''hi'') \<noteq> []"
proof -
  have "map results (tbl_agents (one_agent ''K7X2'')) = [[]]" by (simp add: one_agent_eval)
  moreover have "json_dumps env_two_packets ([CHR 0x0A] @ ''hi'') = [CHR 0x0A] @ ''hi''"
    by (simp add: env_two_packets_def test_env_def)
  ultimately show ?thesis
    using shell_ok_eval(2) undecodable_shell_state [OF utf8_hi(2)]
    by (simp add: two_packets_result)
qed

end
